theory Spec2Isabelle
  imports Main "HOL-Library.Sublist"
begin

section \<open>JavaScript values\<close>

text \<open>
  The service (\<^verbatim>\<open>src/services/geminiService.ts\<close>) handles values of type \<^verbatim>\<open>any\<close>: the
  errors caught by \<^verbatim>\<open>callWithRetry\<close> and everything that comes back from the persistence
  client. They are modelled as JSON-shaped values together with \<^verbatim>\<open>undefined\<close>.

  \<^item> Numbers are the integer-valued ones (status codes, ratings, limits).
  \<^item> A string is the list of the bytes of its UTF-8 encoding. Concatenation, comparison
    with an ASCII literal and the search for an ASCII substring agree with the
    JavaScript operations on the UTF-16 form.
  \<^item> An object is the list of its own enumerable properties in enumeration order, with
    distinct keys.
\<close>

datatype jsval =
    JUndefined
  | JNull
  | JBool bool
  | JNum int
  | JStr string
  | JArr "jsval list"
  | JObj "(string \<times> jsval) list"

text \<open>
  What a promise can be rejected with: a value thrown by the program or by a
  collaborator, or the \<^verbatim>\<open>TypeError\<close> the runtime raises when a property of
  \<^verbatim>\<open>undefined\<close>/\<^verbatim>\<open>null\<close> is read or a non-function is called.
\<close>

datatype exn = Thrown jsval | TypeError

text \<open>Truthiness, as \<^verbatim>\<open>if (x)\<close>, \<^verbatim>\<open>x || y\<close> and \<^verbatim>\<open>x ? a : b\<close> test it.\<close>

fun truthy :: "jsval \<Rightarrow> bool" where
  "truthy JUndefined = False"
| "truthy JNull = False"
| "truthy (JBool b) = b"
| "truthy (JNum n) = (n \<noteq> 0)"
| "truthy (JStr s) = (s \<noteq> [])"
| "truthy (JArr xs) = True"
| "truthy (JObj kvs) = True"

text \<open>
  \<^verbatim>\<open>v?.k\<close> for a data property \<^verbatim>\<open>k\<close>: \<^verbatim>\<open>undefined\<close> when \<^verbatim>\<open>v\<close> is nullish, when
  \<^verbatim>\<open>v\<close> is a primitive or an array, and when the object has no such property. (The
  names read by the modelled code are \<^verbatim>\<open>message\<close>, \<^verbatim>\<open>status\<close>, \<^verbatim>\<open>code\<close>,
  \<^verbatim>\<open>error\<close>, \<^verbatim>\<open>data\<close>, \<^verbatim>\<open>id\<close>, \<^verbatim>\<open>master_prompt\<close> and \<^verbatim>\<open>feedback_tags\<close>; none of
  them is a built-in property of strings or arrays.)
\<close>

fun opt_prop :: "jsval \<Rightarrow> string \<Rightarrow> jsval" where
  "opt_prop (JObj kvs) k = (case map_of kvs k of Some v \<Rightarrow> v | None \<Rightarrow> JUndefined)"
| "opt_prop v k = JUndefined"

text \<open>\<^verbatim>\<open>v.k\<close>: reading a property of \<^verbatim>\<open>undefined\<close> or \<^verbatim>\<open>null\<close> throws.\<close>

definition get_prop :: "jsval \<Rightarrow> string \<Rightarrow> exn + jsval" where
  "get_prop v k = (if v = JUndefined \<or> v = JNull then Inl TypeError else Inr (opt_prop v k))"

text \<open>\<^verbatim>\<open>Array.prototype.join\<close> on an array of strings.\<close>

fun join :: "string \<Rightarrow> string list \<Rightarrow> string" where
  "join sep [] = []"
| "join sep [x] = x"
| "join sep (x # y # ys) = x @ sep @ join sep (y # ys)"

text \<open>\<^verbatim>\<open>String.prototype.includes\<close>: \<open>p\<close> occurs in \<open>s\<close> as a contiguous substring.\<close>

fun str_includes :: "string \<Rightarrow> string \<Rightarrow> bool" where
  "str_includes [] p = (p = [])"
| "str_includes (c # cs) p = (prefix p (c # cs) \<or> str_includes cs p)"

subsection \<open>\<^verbatim>\<open>JSON.stringify\<close>\<close>

definition digit_char :: "nat \<Rightarrow> char" where
  "digit_char d = ''0123456789abcdef'' ! d"

function show_nat :: "nat \<Rightarrow> string" where
  "show_nat n = (if n < 10 then [digit_char n] else show_nat (n div 10) @ [digit_char (n mod 10)])"
  by pat_completeness auto
termination
  by (relation "measure id") auto

definition show_int :: "int \<Rightarrow> string" where
  "show_int i = (if i < 0 then CHR ''-'' # show_nat (nat (- i)) else show_nat (nat i))"

text \<open>
  The escapes of \<^verbatim>\<open>QuoteJSONString\<close>: the double quote (0x22), the backslash (0x5C),
  the short forms for backspace, tab, line feed, form feed and carriage return, and
  \<^verbatim>\<open>\u00XX\<close> for the other control characters below 0x20.
\<close>

definition escape_char :: "char \<Rightarrow> string" where
  "escape_char c =
     (if c = CHR 0x22 then [CHR 0x5C, CHR 0x22]
      else if c = CHR 0x5C then [CHR 0x5C, CHR 0x5C]
      else if c = CHR 0x08 then [CHR 0x5C, CHR ''b'']
      else if c = CHR 0x09 then [CHR 0x5C, CHR ''t'']
      else if c = CHR 0x0A then [CHR 0x5C, CHR ''n'']
      else if c = CHR 0x0C then [CHR 0x5C, CHR ''f'']
      else if c = CHR 0x0D then [CHR 0x5C, CHR ''r'']
      else if (of_char c :: nat) < 32
        then [CHR 0x5C, CHR ''u'', CHR ''0'', CHR ''0'',
              digit_char (of_char c div 16), digit_char (of_char c mod 16)]
      else [c])"

definition quote_json :: "string \<Rightarrow> string" where
  "quote_json s = CHR 0x22 # concat (map escape_char s) @ [CHR 0x22]"

text \<open>
  The text of a value inside a document: \<^verbatim>\<open>undefined\<close> is \<^verbatim>\<open>null\<close> as an array
  element, and a property whose value is \<^verbatim>\<open>undefined\<close> is left out.
\<close>

fun json_text :: "jsval \<Rightarrow> string" where
  "json_text JUndefined = ''null''"
| "json_text JNull = ''null''"
| "json_text (JBool b) = (if b then ''true'' else ''false'')"
| "json_text (JNum n) = show_int n"
| "json_text (JStr s) = quote_json s"
| "json_text (JArr xs) = ''['' @ join '','' (map json_text xs) @ '']''"
| "json_text (JObj kvs) =
     ''{'' @ join '','' (concat (map (\<lambda>(k, v). if v = JUndefined then []
                                       else [quote_json k @ '':'' @ json_text v]) kvs)) @ ''}''"

text \<open>\<^verbatim>\<open>JSON.stringify(v)\<close>: \<^verbatim>\<open>undefined\<close> for \<^verbatim>\<open>undefined\<close>, a string otherwise.\<close>

definition stringify :: "jsval \<Rightarrow> jsval" where
  "stringify v = (if v = JUndefined then JUndefined else JStr (json_text v))"


section \<open>The retry helper \<^verbatim>\<open>callWithRetry\<close>\<close>

text \<open>\<^verbatim>\<open>const msg = e?.message || JSON.stringify(e)\<close>\<close>

definition error_msg :: "jsval \<Rightarrow> jsval" where
  "error_msg e = (let m = opt_prop e ''message'' in if truthy m then m else stringify e)"

text \<open>
  \<^verbatim>\<open>msg.includes(p)\<close>: the substring test on a string, the membership test on an
  array, and a \<^verbatim>\<open>TypeError\<close> on every other value (\<^verbatim>\<open>undefined\<close>, a number, \<^verbatim>\<open>true\<close>,
  a plain object), which has no callable \<^verbatim>\<open>includes\<close>.
\<close>

fun msg_includes :: "jsval \<Rightarrow> string \<Rightarrow> exn + bool" where
  "msg_includes (JStr s) p = Inr (str_includes s p)"
| "msg_includes (JArr xs) p = Inr (JStr p \<in> set xs)"
| "msg_includes v p = Inl TypeError"

text \<open>
  The constant \<^verbatim>\<open>isLoadError\<close> of the \<^verbatim>\<open>catch\<close> block (lines 23-29). Both \<^verbatim>\<open>includes\<close>
  calls are on the same \<^verbatim>\<open>msg\<close>, so the expression throws exactly when the first does.
\<close>

definition isLoadError :: "jsval \<Rightarrow> exn + bool" where
  "isLoadError e =
     (let msg = error_msg e in
      case msg_includes msg ''overloaded'' of
        Inl x \<Rightarrow> Inl x
      | Inr b1 \<Rightarrow>
          (case msg_includes msg ''503'' of
             Inl x \<Rightarrow> Inl x
           | Inr b2 \<Rightarrow>
               Inr (b1 \<or> b2 \<or>
                    opt_prop e ''status'' = JNum 503 \<or>
                    opt_prop e ''code'' = JNum 503 \<or>
                    opt_prop (opt_prop e ''error'') ''code'' = JNum 503 \<or>
                    opt_prop (opt_prop e ''error'') ''status'' = JStr ''UNAVAILABLE'')))"

text \<open>
  The operation \<^verbatim>\<open>fn\<close> is a closure over the outside world: its \<open>k\<close>-th invocation
  (counting from 0) either rejects with a value or resolves, so it is a function from the
  number of earlier invocations to an outcome. What is observed of a run is recorded in a
  trace: how often \<^verbatim>\<open>fn\<close> was invoked and the arguments of the successive
  \<^verbatim>\<open>setTimeout\<close> sleeps. The \<^verbatim>\<open>console.warn\<close> line is not modelled.
\<close>

record trace =
  calls :: nat
  sleeps :: "int list"

text \<open>
  The \<^verbatim>\<open>for\<close> loop of lines 15-39 from iteration \<open>i\<close> on, followed by the
  \<^verbatim>\<open>throw lastError\<close> of line 40.
\<close>

function retry_loop ::
  "(nat \<Rightarrow> jsval + 'a) \<Rightarrow> int \<Rightarrow> int \<Rightarrow> int \<Rightarrow> jsval \<Rightarrow> trace \<Rightarrow> (exn + 'a) \<times> trace" where
  "retry_loop fn retries i delay lastError tr =
     (if i < retries then
        (case fn (calls tr) of
           Inr v \<Rightarrow> (Inr v, tr\<lparr>calls := Suc (calls tr)\<rparr>)
         | Inl e \<Rightarrow>
             (case isLoadError e of
                Inl x \<Rightarrow> (Inl x, tr\<lparr>calls := Suc (calls tr)\<rparr>)
              | Inr load \<Rightarrow>
                  if load \<and> i < retries - 1
                  then retry_loop fn retries (i + 1) (delay * 2) e
                         (tr\<lparr>calls := Suc (calls tr), sleeps := sleeps tr @ [delay]\<rparr>)
                  else (Inl (Thrown e), tr\<lparr>calls := Suc (calls tr)\<rparr>)))
      else (Inl (Thrown lastError), tr))"
  by pat_completeness auto
termination
  by (relation "measure (\<lambda>(fn, retries, i, delay, lastError, tr). nat (retries - i))") auto

declare retry_loop.simps [simp del]

definition callWithRetry ::
  "(nat \<Rightarrow> jsval + 'a) \<Rightarrow> int \<Rightarrow> int \<Rightarrow> (exn + 'a) \<times> trace" where
  "callWithRetry fn retries delay =
     retry_loop fn retries 0 delay JUndefined \<lparr>calls = 0, sleeps = []\<rparr>"

text \<open>The defaults of the signature: \<^verbatim>\<open>retries = 5, delay = 3000\<close>.\<close>

definition callWithRetry_defaults :: "(nat \<Rightarrow> jsval + 'a) \<Rightarrow> (exn + 'a) \<times> trace" where
  "callWithRetry_defaults fn = callWithRetry fn 5 3000"


text \<open>
  The classification as the specification words it (section 4.1), for comparison with
  \<open>isLoadError\<close>: the code 503 as the top-level \<^verbatim>\<open>status\<close> or \<^verbatim>\<open>code\<close>, or inside the
  wrapped \<^verbatim>\<open>error\<close> object (\<^verbatim>\<open>error.code = 503\<close>, \<^verbatim>\<open>error.status = 'UNAVAILABLE'\<close>), or
  one of the markers \<^verbatim>\<open>overloaded\<close>, \<^verbatim>\<open>503\<close> in the text of the error's message.
\<close>

definition spec_transient :: "jsval \<Rightarrow> bool" where
  "spec_transient e =
     (opt_prop e ''status'' = JNum 503 \<or>
      opt_prop e ''code'' = JNum 503 \<or>
      opt_prop (opt_prop e ''error'') ''code'' = JNum 503 \<or>
      opt_prop (opt_prop e ''error'') ''status'' = JStr ''UNAVAILABLE'' \<or>
      (case opt_prop e ''message'' of
         JStr m \<Rightarrow> str_includes m ''overloaded'' \<or> str_includes m ''503''
       | _ \<Rightarrow> False))"

text \<open>Sample errors for the examples.\<close>

definition overloaded_error :: jsval where
  "overloaded_error = JObj [(''message'', JStr ''The model is overloaded.'')]"

definition bad_request_error :: jsval where
  "bad_request_error = JObj [(''message'', JStr ''API key not valid''), (''status'', JNum 400)]"

definition unavailable_error :: jsval where
  "unavailable_error = JObj [(''message'', JStr ''Request failed''), (''status'', JNum 503)]"

definition wrapped_overload_error :: jsval where
  "wrapped_overload_error =
     JObj [(''error'', JObj [(''message'', JStr ''The model is overloaded''),
                             (''status'', JStr ''RESOURCE_EXHAUSTED'')])]"

text \<open>The sleeps of \<open>m\<close> consecutive retries that start with delay \<open>d\<close>.\<close>

definition backoff :: "int \<Rightarrow> nat \<Rightarrow> int list" where
  "backoff d m = map (\<lambda>k. d * 2 ^ k) [0..<m]"


section \<open>The persistence client\<close>

text \<open>
  The service builds each query by a chain of method calls on the imported
  \<^verbatim>\<open>supabase\<close> object and awaits the result. A chain is the list of the calls, each
  with its name and arguments. A client is what awaiting a chain gives: a rejection, or
  the resolved value (for the real client an object with the properties \<^verbatim>\<open>data\<close> and
  \<^verbatim>\<open>error\<close>). The chains of this service hand over JSON values only, never a function.
\<close>

type_synonym call = "string \<times> jsval list"
type_synonym chain = "call list"
type_synonym client = "chain \<Rightarrow> exn + jsval"

subsection \<open>The offline mock (\<^verbatim>\<open>createMockChain\<close>)\<close>

text \<open>
  The mock is a \<^verbatim>\<open>Proxy\<close> around a function. Reading a property gives: for
  \<^verbatim>\<open>then\<close> a function that calls its first argument with
  \<^verbatim>\<open>{ data: [], error: null }\<close>; for \<^verbatim>\<open>single\<close> a function that returns a promise of
  \<^verbatim>\<open>{ data: { id: 'offline-mode-id' }, error: null }\<close>; for any other name a fresh mock.
  Calling a mock gives a fresh mock. So a value inside a chain is a mock or, after
  \<^verbatim>\<open>single()\<close>, a true promise.
\<close>

datatype mock_value = MockChain | MockPromise jsval

definition offline_then :: jsval where
  "offline_then = JObj [(''data'', JArr []), (''error'', JNull)]"

definition offline_single :: jsval where
  "offline_single =
     JObj [(''data'', JObj [(''id'', JStr ''offline-mode-id'')]), (''error'', JNull)]"

text \<open>
  One method call \<^verbatim>\<open>v.name(args)\<close>. On a mock, \<^verbatim>\<open>then(x)\<close> calls \<^verbatim>\<open>x\<close>, which is no
  function here. A promise has \<^verbatim>\<open>then\<close>, \<^verbatim>\<open>catch\<close> and \<^verbatim>\<open>finally\<close>, which pass the value
  on when their handlers are not functions, and no other method.
\<close>

fun mock_method :: "mock_value \<Rightarrow> call \<Rightarrow> exn + mock_value" where
  "mock_method MockChain (name, args) =
     (if name = ''then'' then Inl TypeError
      else if name = ''single'' then Inr (MockPromise offline_single)
      else Inr MockChain)"
| "mock_method (MockPromise r) (name, args) =
     (if name = ''then'' \<or> name = ''catch'' \<or> name = ''finally'' then Inr (MockPromise r)
      else Inl TypeError)"

fun mock_calls :: "mock_value \<Rightarrow> chain \<Rightarrow> exn + mock_value" where
  "mock_calls m [] = Inr m"
| "mock_calls m (c # cs) =
     (case mock_method m c of Inl x \<Rightarrow> Inl x | Inr m' \<Rightarrow> mock_calls m' cs)"

text \<open>
  \<^verbatim>\<open>await\<close>: a mock is a thenable, its \<^verbatim>\<open>then\<close> resolves with the empty result; a
  promise resolves with its value.
\<close>

fun mock_await :: "mock_value \<Rightarrow> jsval" where
  "mock_await MockChain = offline_then"
| "mock_await (MockPromise r) = r"

definition createMockChain :: client where
  "createMockChain ch =
     (case mock_calls MockChain ch of Inl x \<Rightarrow> Inl x | Inr m \<Rightarrow> Inr (mock_await m))"

text \<open>\<^verbatim>\<open>!process.env.X\<close>, \<^verbatim>\<open>a && b\<close> on environment variables: unset or empty is falsy.\<close>

definition env_set :: "string option \<Rightarrow> bool" where
  "env_set v = (case v of None \<Rightarrow> False | Some s \<Rightarrow> s \<noteq> [])"

text \<open>
  The exported \<^verbatim>\<open>supabase\<close>: the real client when both credentials are set, the mock
  otherwise. \<^verbatim>\<open>createClient\<close> belongs to the client library and is a parameter.
\<close>

definition supabase ::
  "(string \<Rightarrow> string \<Rightarrow> client) \<Rightarrow> string option \<Rightarrow> string option \<Rightarrow> client" where
  "supabase createClient supabaseUrl supabaseAnonKey =
     (if env_set supabaseUrl \<and> env_set supabaseAnonKey
      then createClient (case supabaseUrl of Some u \<Rightarrow> u | None \<Rightarrow> [])
                        (case supabaseAnonKey of Some k \<Rightarrow> k | None \<Rightarrow> [])
      else createMockChain)"


section \<open>The learning functions\<close>

subsection \<open>Array and \<^verbatim>\<open>Set\<close> operations on values\<close>

text \<open>
  \<^verbatim>\<open>String(v)\<close>. Inside \<^verbatim>\<open>join\<close>, \<^verbatim>\<open>undefined\<close> and \<^verbatim>\<open>null\<close> elements give the empty
  string.
\<close>

fun to_string :: "jsval \<Rightarrow> string" where
  "to_string JUndefined = ''undefined''"
| "to_string JNull = ''null''"
| "to_string (JBool b) = (if b then ''true'' else ''false'')"
| "to_string (JNum n) = show_int n"
| "to_string (JStr s) = s"
| "to_string (JArr xs) =
     join '','' (map (\<lambda>v. if v = JUndefined \<or> v = JNull then [] else to_string v) xs)"
| "to_string (JObj kvs) = ''[object Object]''"

definition array_join :: "string \<Rightarrow> jsval list \<Rightarrow> string" where
  "array_join sep xs =
     join sep (map (\<lambda>v. if v = JUndefined \<or> v = JNull then [] else to_string v) xs)"

text \<open>
  The equality of \<^verbatim>\<open>Set\<close>: primitives are equal when they are the same value; an array
  or object is equal to itself only, and two positions of a result hold two different
  objects.
\<close>

fun same_value_zero :: "jsval \<Rightarrow> jsval \<Rightarrow> bool" where
  "same_value_zero (JArr xs) b = False"
| "same_value_zero (JObj kvs) b = False"
| "same_value_zero a b = (a = b)"

text \<open>\<^verbatim>\<open>Array.from(new Set(xs))\<close>: insertion order, the first occurrence kept.\<close>

fun set_add :: "jsval list \<Rightarrow> jsval \<Rightarrow> jsval list" where
  "set_add seen v = (if \<exists>w \<in> set seen. same_value_zero v w then seen else seen @ [v])"

definition array_from_set :: "jsval list \<Rightarrow> jsval list" where
  "array_from_set xs = foldl set_add [] xs"

text \<open>Results of a callback applied to the elements in order, up to the first throw.\<close>

fun sequence :: "(exn + 'a) list \<Rightarrow> exn + 'a list" where
  "sequence [] = Inr []"
| "sequence (x # xs) =
     (case x of
        Inl e \<Rightarrow> Inl e
      | Inr v \<Rightarrow> (case sequence xs of Inl e \<Rightarrow> Inl e | Inr vs \<Rightarrow> Inr (v # vs)))"

subsection \<open>Data\<close>

text \<open>
  \<^verbatim>\<open>RenderOptions\<close> and \<^verbatim>\<open>LearningContext\<close> come from \<^verbatim>\<open>../types\<close>; the fields are
  those the service reads and writes.
\<close>

record RenderOptions =
  category :: string
  style :: string
  colorPalette :: string
  surfaceMaterial :: string
  textileMaterial :: string
  textileColor1 :: string
  textileColor2 :: string
  additionalPrompt :: string
  isAutoFocus :: bool
  cameraPreset :: string
  hiddenAIContext :: "string option"

record LearningContext =
  examples :: string
  constraints :: string

subsection \<open>\<^verbatim>\<open>getLearningContext\<close> (lines 48-82)\<close>

text \<open>The two query chains (lines 51-58 and 61-67).\<close>

definition positive_query :: "string \<Rightarrow> string \<Rightarrow> chain" where
  "positive_query cat sty =
     [(''from'', [JStr ''render_history'']),
      (''select'', [JStr ''master_prompt'']),
      (''eq'', [JStr ''category'', JStr cat]),
      (''eq'', [JStr ''style'', JStr sty]),
      (''eq'', [JStr ''rating'', JNum 5]),
      (''order'', [JStr ''created_at'', JObj [(''ascending'', JBool False)]]),
      (''limit'', [JNum 3])]"

definition negative_query :: "string \<Rightarrow> chain" where
  "negative_query cat =
     [(''from'', [JStr ''render_history'']),
      (''select'', [JStr ''feedback_tags'']),
      (''eq'', [JStr ''category'', JStr cat]),
      (''lt'', [JStr ''rating'', JNum 3]),
      (''not'', [JStr ''feedback_tags'', JStr ''is'', JNull]),
      (''limit'', [JNum 10])]"

text \<open>
  \<^verbatim>\<open>negative?.flatMap(n => n.feedback_tags || []) || []\<close>: nothing for a nullish
  \<^verbatim>\<open>negative\<close>; on an array the callback's results are flattened by one level (an array
  result contributes its elements, any other truthy result itself); a value that is
  neither has no \<^verbatim>\<open>flatMap\<close>.
\<close>

definition flat_tags :: "jsval \<Rightarrow> exn + jsval list" where
  "flat_tags negative =
     (case negative of
        JUndefined \<Rightarrow> Inr []
      | JNull \<Rightarrow> Inr []
      | JArr rows \<Rightarrow>
          (case sequence (map (\<lambda>n. get_prop n ''feedback_tags'') rows) of
             Inl x \<Rightarrow> Inl x
           | Inr vs \<Rightarrow>
               Inr (concat (map (\<lambda>v. if truthy v
                                      then (case v of JArr ts \<Rightarrow> ts | _ \<Rightarrow> [v])
                                      else []) vs)))
      | _ \<Rightarrow> Inl TypeError)"

text \<open>
  \<^verbatim>\<open>positive?.map(p => p.master_prompt).join('\n--- EXAMPLE ---\n') || ""\<close>: the empty
  string for a nullish \<^verbatim>\<open>positive\<close> (and for an empty join).
\<close>

definition joined_prompts :: "jsval \<Rightarrow> exn + string" where
  "joined_prompts positive =
     (case positive of
        JUndefined \<Rightarrow> Inr []
      | JNull \<Rightarrow> Inr []
      | JArr rows \<Rightarrow>
          (case sequence (map (\<lambda>p. get_prop p ''master_prompt'') rows) of
             Inl x \<Rightarrow> Inl x
           | Inr vs \<Rightarrow> Inr (array_join ''\<newline>--- EXAMPLE ---\<newline>'' vs))
      | _ \<Rightarrow> Inl TypeError)"

text \<open>The body of the \<^verbatim>\<open>try\<close> block, in the order of the source.\<close>

definition learning_try :: "client \<Rightarrow> string \<Rightarrow> string \<Rightarrow> exn + LearningContext" where
  "learning_try client cat sty =
     (case client (positive_query cat sty) of
        Inl x \<Rightarrow> Inl x
      | Inr r1 \<Rightarrow>
     (case get_prop r1 ''data'' of
        Inl x \<Rightarrow> Inl x
      | Inr positive \<Rightarrow>
     (case client (negative_query cat) of
        Inl x \<Rightarrow> Inl x
      | Inr r2 \<Rightarrow>
     (case get_prop r2 ''data'' of
        Inl x \<Rightarrow> Inl x
      | Inr negative \<Rightarrow>
     (case flat_tags negative of
        Inl x \<Rightarrow> Inl x
      | Inr allNegativeTags \<Rightarrow>
     (let commonComplaints = array_from_set allNegativeTags in
      case joined_prompts positive of
        Inl x \<Rightarrow> Inl x
      | Inr ex \<Rightarrow>
          Inr \<lparr>examples = ex,
               constraints = array_join '', '' (take 5 commonComplaints)\<rparr>))))))"

text \<open>The \<^verbatim>\<open>catch\<close> block returns the empty context.\<close>

definition getLearningContext :: "client \<Rightarrow> string \<Rightarrow> string \<Rightarrow> exn + LearningContext" where
  "getLearningContext client cat sty =
     (case learning_try client cat sty of
        Inl e \<Rightarrow> Inr \<lparr>examples = [], constraints = []\<rparr>
      | Inr ctx \<Rightarrow> Inr ctx)"

subsection \<open>\<^verbatim>\<open>saveRenderHistory\<close> (lines 87-108)\<close>

definition insert_query :: "RenderOptions \<Rightarrow> string \<Rightarrow> chain" where
  "insert_query options masterPrompt =
     [(''from'', [JStr ''render_history'']),
      (''insert'', [JArr [JObj [(''category'', JStr (category options)),
                               (''style'', JStr (style options)),
                               (''master_prompt'', JStr masterPrompt),
                               (''rating'', JNull)]]]),
      (''select'', []),
      (''single'', [])]"

definition save_try :: "client \<Rightarrow> RenderOptions \<Rightarrow> string \<Rightarrow> exn + jsval" where
  "save_try client options masterPrompt =
     (case client (insert_query options masterPrompt) of
        Inl x \<Rightarrow> Inl x
      | Inr r \<Rightarrow>
     (case get_prop r ''data'' of
        Inl x \<Rightarrow> Inl x
      | Inr data \<Rightarrow>
     (case get_prop r ''error'' of
        Inl x \<Rightarrow> Inl x
      | Inr error \<Rightarrow>
          if truthy error then Inl (Thrown error) else get_prop data ''id'')))"

definition saveRenderHistory :: "client \<Rightarrow> RenderOptions \<Rightarrow> string \<Rightarrow> exn + jsval" where
  "saveRenderHistory client options masterPrompt =
     (case save_try client options masterPrompt of
        Inl e \<Rightarrow> Inr JNull
      | Inr renderId \<Rightarrow> Inr renderId)"

subsection \<open>\<^verbatim>\<open>submitFeedback\<close> (lines 113-123)\<close>

definition update_query :: "string \<Rightarrow> int \<Rightarrow> string list \<Rightarrow> chain" where
  "update_query renderId rating tags =
     [(''from'', [JStr ''render_history'']),
      (''update'', [JObj [(''rating'', JNum rating),
                         (''feedback_tags'', JArr (map JStr tags))]]),
      (''eq'', [JStr ''id'', JStr renderId])]"

definition submitFeedback :: "client \<Rightarrow> string \<Rightarrow> int \<Rightarrow> string list \<Rightarrow> exn + unit" where
  "submitFeedback client renderId rating tags =
     (case client (update_query renderId rating tags) of
        Inl x \<Rightarrow> Inl x
      | Inr r \<Rightarrow>
     (case get_prop r ''error'' of
        Inl x \<Rightarrow> Inl x
      | Inr error \<Rightarrow> if truthy error then Inl (Thrown error) else Inr ()))"


section \<open>The persistence service behind the client\<close>

text \<open>
  Modelled from the spec: the persistence service itself (the hosted datastore and the
  client library that talks to it) is an external collaborator and not part of the
  sources. Section 6 of the specification gives its contract: a filtered read
  "select records where field = value [, field2 op value2]*, order, limit" over the
  RenderRecord relation, returning data or a structured error; section 3 gives the
  attributes of a RenderRecord. The model below is that relation as a list of rows and
  the filtered read over it, for the filters and modifiers the service uses: \<^verbatim>\<open>eq\<close>,
  \<^verbatim>\<open>lt\<close>, \<^verbatim>\<open>not(..., 'is', null)\<close>, \<^verbatim>\<open>order('created_at', ...)\<close> and \<^verbatim>\<open>limit\<close>.
  The filters are applied first, then the order, then the limit. Without an order the
  rows come in the order of the list.
\<close>

record render_row =
  row_id :: string
  row_category :: string
  row_style :: string
  row_master_prompt :: string
  row_rating :: "int option"
  row_feedback_tags :: "string list option"
  row_created_at :: nat

text \<open>Modelled from the spec: the value of a column of a row, as JSON.\<close>

definition column :: "render_row \<Rightarrow> string \<Rightarrow> jsval" where
  "column r c =
     (if c = ''id'' then JStr (row_id r)
      else if c = ''category'' then JStr (row_category r)
      else if c = ''style'' then JStr (row_style r)
      else if c = ''master_prompt'' then JStr (row_master_prompt r)
      else if c = ''rating'' then (case row_rating r of None \<Rightarrow> JNull | Some n \<Rightarrow> JNum n)
      else if c = ''feedback_tags''
        then (case row_feedback_tags r of None \<Rightarrow> JNull | Some ts \<Rightarrow> JArr (map JStr ts))
      else if c = ''created_at'' then JNum (int (row_created_at r))
      else JUndefined)"

text \<open>Modelled from the spec: the names of the attributes of a RenderRecord.\<close>

definition is_column :: "string \<Rightarrow> bool" where
  "is_column c = (c \<in> set [''id'', ''category'', ''style'', ''master_prompt'', ''rating'',
                            ''feedback_tags'', ''created_at''])"

text \<open>
  Modelled from the spec: the clauses of a filtered read. An equality with \<^verbatim>\<open>null\<close>
  matches nothing, and \<^verbatim>\<open>lt\<close> matches no row whose value is \<^verbatim>\<open>null\<close>.
\<close>

datatype clause = Where "render_row \<Rightarrow> bool" | OrderByCreatedAt bool | Limit nat

text \<open>
  Modelled from the spec: one call of a chain read as a clause of the filtered read;
  \<open>None\<close> for a call that is not one of the five.
\<close>

fun parse_clause :: "call \<Rightarrow> clause option" where
  "parse_clause (name, args) =
     (if name = ''eq'' then
        (case args of
           [JStr c, v] \<Rightarrow>
             if is_column c then Some (Where (\<lambda>r. v \<noteq> JNull \<and> column r c = v)) else None
         | _ \<Rightarrow> None)
      else if name = ''lt'' then
        (case args of
           [JStr c, JNum n] \<Rightarrow>
             if is_column c
             then Some (Where (\<lambda>r. case column r c of JNum m \<Rightarrow> m < n | _ \<Rightarrow> False))
             else None
         | _ \<Rightarrow> None)
      else if name = ''not'' then
        (case args of
           [JStr c, JStr op, JNull] \<Rightarrow>
             if is_column c \<and> op = ''is'' then Some (Where (\<lambda>r. column r c \<noteq> JNull))
             else None
         | _ \<Rightarrow> None)
      else if name = ''order'' then
        (case args of
           [JStr c, opts] \<Rightarrow>
             if c = ''created_at''
             then Some (OrderByCreatedAt (opt_prop opts ''ascending'' \<noteq> JBool False))
             else None
         | _ \<Rightarrow> None)
      else if name = ''limit'' then
        (case args of [JNum n] \<Rightarrow> if 0 \<le> n then Some (Limit (nat n)) else None | _ \<Rightarrow> None)
      else None)"

text \<open>Modelled from the spec: all the calls of a chain, or \<open>None\<close> if one is not a clause.\<close>

fun parse_clauses :: "clause option list \<Rightarrow> clause list option" where
  "parse_clauses [] = Some []"
| "parse_clauses (None # xs) = None"
| "parse_clauses (Some c # xs) = map_option (Cons c) (parse_clauses xs)"

text \<open>Modelled from the spec: a row passes when it passes every filter.\<close>

fun wheres :: "clause list \<Rightarrow> render_row \<Rightarrow> bool" where
  "wheres [] r = True"
| "wheres (Where p # cs) r = (p r \<and> wheres cs r)"
| "wheres (c # cs) r = wheres cs r"

text \<open>
  Modelled from the spec: the order by creation time, ascending or descending (newest
  first); without an order clause the rows stay as they are.
\<close>

fun ordering :: "clause list \<Rightarrow> render_row list \<Rightarrow> render_row list" where
  "ordering [] rows = rows"
| "ordering (OrderByCreatedAt asc # cs) rows =
     (if asc then sort_key row_created_at rows else rev (sort_key row_created_at rows))"
| "ordering (c # cs) rows = ordering cs rows"

text \<open>Modelled from the spec: the limit keeps the first \<open>n\<close> rows.\<close>

fun limiting :: "clause list \<Rightarrow> render_row list \<Rightarrow> render_row list" where
  "limiting [] rows = rows"
| "limiting (Limit n # cs) rows = take n rows"
| "limiting (c # cs) rows = limiting cs rows"

text \<open>Modelled from the spec: the filtered read: filter, then order, then limit.\<close>

definition run_select :: "render_row list \<Rightarrow> clause list \<Rightarrow> render_row list" where
  "run_select table cs = limiting cs (ordering cs (filter (\<lambda>r. wheres cs r) table))"

text \<open>Modelled from the spec: the structured error for a request outside the contract.\<close>

definition bad_request :: jsval where
  "bad_request =
     JObj [(''data'', JNull), (''error'', JObj [(''message'', JStr ''bad request'')])]"

text \<open>
  Modelled from the spec: the answer to a chain \<^verbatim>\<open>from(t).select(c)...\<close> on the table:
  the selected column of the rows that the clauses leave, with a \<^verbatim>\<open>null\<close> error. Any
  other chain is answered with a structured error.
\<close>

definition table_response :: "render_row list \<Rightarrow> chain \<Rightarrow> jsval" where
  "table_response table ch =
     (case ch of
        (f, [JStr t]) # (s, [JStr c]) # rest \<Rightarrow>
          if f = ''from'' \<and> t = ''render_history'' \<and> s = ''select'' \<and> is_column c
          then (case parse_clauses (map parse_clause rest) of
                  None \<Rightarrow> bad_request
                | Some cs \<Rightarrow>
                    JObj [(''data'', JArr (map (\<lambda>r. JObj [(c, column r c)])
                                              (run_select table cs))),
                          (''error'', JNull)])
          else bad_request
      | _ \<Rightarrow> bad_request)"

text \<open>Modelled from the spec: the client of a configured service holding the table.\<close>

definition table_client :: "render_row list \<Rightarrow> client" where
  "table_client table ch = Inr (table_response table ch)"

subsection \<open>The learning context in terms of the rows\<close>

text \<open>
  The records whose category and style match and whose rating is exactly 5; the \<open>n\<close>
  most recent of a list of records; the records of a category with a rating below 3 and
  a tag set that is not null; the tags of a record; and a list without its repetitions,
  in the order of the first occurrences.
\<close>

definition high_rated :: "render_row list \<Rightarrow> string \<Rightarrow> string \<Rightarrow> render_row list" where
  "high_rated table cat sty =
     filter (\<lambda>r. row_category r = cat \<and> row_style r = sty \<and> row_rating r = Some 5) table"

definition most_recent :: "nat \<Rightarrow> render_row list \<Rightarrow> render_row list" where
  "most_recent n rows = take n (rev (sort_key row_created_at rows))"

definition low_rated_tagged :: "render_row list \<Rightarrow> string \<Rightarrow> render_row list" where
  "low_rated_tagged table cat =
     filter (\<lambda>r. row_category r = cat \<and>
                 (case row_rating r of None \<Rightarrow> False | Some n \<Rightarrow> n < 3) \<and>
                 row_feedback_tags r \<noteq> None) table"

definition tags_of :: "render_row \<Rightarrow> string list" where
  "tags_of r = (case row_feedback_tags r of None \<Rightarrow> [] | Some ts \<Rightarrow> ts)"

fun first_occurrences :: "'a list \<Rightarrow> 'a list" where
  "first_occurrences [] = []"
| "first_occurrences (x # xs) = x # first_occurrences (removeAll x xs)"


section \<open>The empowerment block \<^verbatim>\<open>getEmpowermentPrompt\<close>\<close>

text \<open>
  The seven directives of lines 182-200 and the frame of the template of lines 204-210.
  The texts are Vietnamese; each constant is the UTF-8 encoding of the source literal,
  the bytes outside ASCII written as \<open>CHR\<close> codes. The comment before each constant
  gives the literal with the diacritics dropped.
\<close>

text \<open>\<^verbatim>\<open>- PHAN TICH CAU TRUC GOC: Nhan dien chinh xac vi tri cac vat the hien huu. Tuyet doi khong them that cac khoi kien truc lam thay doi bo cuc goc.\<close>\<close>

definition directive_category :: string where
  "directive_category =
     ''- PH'' @ [CHR 0xC3, CHR 0x82] @ ''N T'' @ [CHR 0xC3, CHR 0x8D] @ ''CH C'' @
     [CHR 0xE1, CHR 0xBA, CHR 0xA4] @ ''U TR'' @ [CHR 0xC3, CHR 0x9A] @ ''C G'' @
     [CHR 0xE1, CHR 0xBB, CHR 0x90] @ ''C: Nh'' @ [CHR 0xE1, CHR 0xBA, CHR 0xAD] @
     ''n di'' @ [CHR 0xE1, CHR 0xBB, CHR 0x87] @ ''n ch'' @ [CHR 0xC3, CHR 0xAD] @
     ''nh x'' @ [CHR 0xC3, CHR 0xA1] @ ''c v'' @ [CHR 0xE1, CHR 0xBB, CHR 0x8B] @ '' tr'' @
     [CHR 0xC3, CHR 0xAD] @ '' c'' @ [CHR 0xC3, CHR 0xA1] @ ''c v'' @
     [CHR 0xE1, CHR 0xBA, CHR 0xAD] @ ''t th'' @ [CHR 0xE1, CHR 0xBB, CHR 0x83] @ '' hi'' @
     [CHR 0xE1, CHR 0xBB, CHR 0x87] @ ''n h'' @ [CHR 0xE1, CHR 0xBB, CHR 0xAF] @
     ''u. Tuy'' @ [CHR 0xE1, CHR 0xBB, CHR 0x87] @ ''t '' @
     [CHR 0xC4, CHR 0x91, CHR 0xE1, CHR 0xBB, CHR 0x91] @ ''i kh'' @ [CHR 0xC3, CHR 0xB4] @
     ''ng th'' @ [CHR 0xC3, CHR 0xAA] @ ''m th'' @ [CHR 0xE1, CHR 0xBA, CHR 0xAF] @
     ''t c'' @ [CHR 0xC3, CHR 0xA1] @ ''c kh'' @ [CHR 0xE1, CHR 0xBB, CHR 0x91] @
     ''i ki'' @ [CHR 0xE1, CHR 0xBA, CHR 0xBF] @ ''n tr'' @ [CHR 0xC3, CHR 0xBA] @
     ''c l'' @ [CHR 0xC3, CHR 0xA0] @ ''m thay '' @
     [CHR 0xC4, CHR 0x91, CHR 0xE1, CHR 0xBB, CHR 0x95] @ ''i b'' @
     [CHR 0xE1, CHR 0xBB, CHR 0x91] @ '' c'' @ [CHR 0xE1, CHR 0xBB, CHR 0xA5] @ ''c g'' @
     [CHR 0xE1, CHR 0xBB, CHR 0x91] @ ''c.''"

text \<open>\<^verbatim>\<open>- TRICH XUAT PHONG CACH: Phan tich cac duong net kien truc san co trong anh (vi du: phao chi co dien, net thang hien dai) de render vat lieu dong nhat voi ngon ngu do.\<close>\<close>

definition directive_style :: string where
  "directive_style =
     ''- TR'' @ [CHR 0xC3, CHR 0x8D] @ ''CH XU'' @ [CHR 0xE1, CHR 0xBA, CHR 0xA4] @
     ''T PHONG C'' @ [CHR 0xC3, CHR 0x81] @ ''CH: Ph'' @ [CHR 0xC3, CHR 0xA2] @ ''n t'' @
     [CHR 0xC3, CHR 0xAD] @ ''ch c'' @ [CHR 0xC3, CHR 0xA1] @ ''c '' @
     [CHR 0xC4, CHR 0x91, CHR 0xC6, CHR 0xB0, CHR 0xE1, CHR 0xBB, CHR 0x9D] @ ''ng n'' @
     [CHR 0xC3, CHR 0xA9] @ ''t ki'' @ [CHR 0xE1, CHR 0xBA, CHR 0xBF] @ ''n tr'' @
     [CHR 0xC3, CHR 0xBA] @ ''c s'' @ [CHR 0xE1, CHR 0xBA, CHR 0xB5] @ ''n c'' @
     [CHR 0xC3, CHR 0xB3] @ '' trong '' @ [CHR 0xE1, CHR 0xBA, CHR 0xA3] @ ''nh (v'' @
     [CHR 0xC3, CHR 0xAD] @ '' d'' @ [CHR 0xE1, CHR 0xBB, CHR 0xA5] @ '': ph'' @
     [CHR 0xC3, CHR 0xA0] @ ''o ch'' @ [CHR 0xE1, CHR 0xBB, CHR 0x89] @ '' c'' @
     [CHR 0xE1, CHR 0xBB, CHR 0x95] @ '' '' @ [CHR 0xC4, CHR 0x91] @ ''i'' @
     [CHR 0xE1, CHR 0xBB, CHR 0x83] @ ''n, n'' @ [CHR 0xC3, CHR 0xA9] @ ''t th'' @
     [CHR 0xE1, CHR 0xBA, CHR 0xB3] @ ''ng hi'' @ [CHR 0xE1, CHR 0xBB, CHR 0x87] @ ''n '' @
     [CHR 0xC4, CHR 0x91, CHR 0xE1, CHR 0xBA, CHR 0xA1] @ ''i) '' @
     [CHR 0xC4, CHR 0x91, CHR 0xE1, CHR 0xBB, CHR 0x83] @ '' render v'' @
     [CHR 0xE1, CHR 0xBA, CHR 0xAD] @ ''t li'' @ [CHR 0xE1, CHR 0xBB, CHR 0x87] @ ''u '' @
     [CHR 0xC4, CHR 0x91, CHR 0xE1, CHR 0xBB, CHR 0x93] @ ''ng nh'' @
     [CHR 0xE1, CHR 0xBA, CHR 0xA5] @ ''t v'' @ [CHR 0xE1, CHR 0xBB, CHR 0x9B] @ ''i ng'' @
     [CHR 0xC3, CHR 0xB4] @ ''n ng'' @ [CHR 0xE1, CHR 0xBB, CHR 0xAF] @ '' '' @
     [CHR 0xC4, CHR 0x91, CHR 0xC3, CHR 0xB3] @ ''.''"

text \<open>\<^verbatim>\<open>- BAO TON BANG MAU (STRICT COLOR MATCH): Thuc hien lay mau mau truc tiep tu hinh anh goc.\<close>\<close>

definition directive_colorPalette :: string where
  "directive_colorPalette =
     ''- B'' @ [CHR 0xE1, CHR 0xBA, CHR 0xA2] @ ''O T'' @ [CHR 0xE1, CHR 0xBB, CHR 0x92] @
     ''N B'' @ [CHR 0xE1, CHR 0xBA, CHR 0xA2] @ ''NG M'' @ [CHR 0xC3, CHR 0x80] @
     ''U (STRICT COLOR MATCH): Th'' @ [CHR 0xE1, CHR 0xBB, CHR 0xB1] @ ''c hi'' @
     [CHR 0xE1, CHR 0xBB, CHR 0x87] @ ''n l'' @ [CHR 0xE1, CHR 0xBA, CHR 0xA5] @ ''y m'' @
     [CHR 0xE1, CHR 0xBA, CHR 0xAB] @ ''u m'' @ [CHR 0xC3, CHR 0xA0] @ ''u tr'' @
     [CHR 0xE1, CHR 0xBB, CHR 0xB1] @ ''c ti'' @ [CHR 0xE1, CHR 0xBA, CHR 0xBF] @ ''p t'' @
     [CHR 0xE1, CHR 0xBB, CHR 0xAB] @ '' h'' @ [CHR 0xC3, CHR 0xAC] @ ''nh '' @
     [CHR 0xE1, CHR 0xBA, CHR 0xA3] @ ''nh g'' @ [CHR 0xE1, CHR 0xBB, CHR 0x91] @ ''c.''"

text \<open>\<^verbatim>\<open>- NANG CAP VAT LIEU THUC TE: Xac dinh vat lieu hien co va lam net van be mat.\<close>\<close>

definition directive_surfaceMaterial :: string where
  "directive_surfaceMaterial =
     ''- N'' @ [CHR 0xC3, CHR 0x82] @ ''NG C'' @ [CHR 0xE1, CHR 0xBA, CHR 0xA4] @ ''P V'' @
     [CHR 0xE1, CHR 0xBA, CHR 0xAC] @ ''T LI'' @ [CHR 0xE1, CHR 0xBB, CHR 0x86] @
     ''U TH'' @ [CHR 0xE1, CHR 0xBB, CHR 0xB0] @ ''C T'' @ [CHR 0xE1, CHR 0xBA, CHR 0xBE] @
     '': X'' @ [CHR 0xC3, CHR 0xA1] @ ''c '' @
     [CHR 0xC4, CHR 0x91, CHR 0xE1, CHR 0xBB, CHR 0x8B] @ ''nh v'' @
     [CHR 0xE1, CHR 0xBA, CHR 0xAD] @ ''t li'' @ [CHR 0xE1, CHR 0xBB, CHR 0x87] @
     ''u hi'' @ [CHR 0xE1, CHR 0xBB, CHR 0x87] @ ''n c'' @ [CHR 0xC3, CHR 0xB3] @ '' v'' @
     [CHR 0xC3, CHR 0xA0] @ '' l'' @ [CHR 0xC3, CHR 0xA0] @ ''m n'' @
     [CHR 0xC3, CHR 0xA9] @ ''t v'' @ [CHR 0xC3, CHR 0xA2] @ ''n b'' @
     [CHR 0xE1, CHR 0xBB, CHR 0x81] @ '' m'' @ [CHR 0xE1, CHR 0xBA, CHR 0xB7] @ ''t.''"

text \<open>\<^verbatim>\<open>- TOI UU VAT LIEU VAI: Phan tich cac loai vai hien co va nang cap chung len chat lieu cao cap.\<close>\<close>

definition directive_textileMaterial :: string where
  "directive_textileMaterial =
     ''- T'' @ [CHR 0xE1, CHR 0xBB, CHR 0x90] @ ''I '' @ [CHR 0xC6, CHR 0xAF] @ ''U V'' @
     [CHR 0xE1, CHR 0xBA, CHR 0xAC] @ ''T LI'' @ [CHR 0xE1, CHR 0xBB, CHR 0x86] @ ''U V'' @
     [CHR 0xE1, CHR 0xBA, CHR 0xA2] @ ''I: Ph'' @ [CHR 0xC3, CHR 0xA2] @ ''n t'' @
     [CHR 0xC3, CHR 0xAD] @ ''ch c'' @ [CHR 0xC3, CHR 0xA1] @ ''c lo'' @
     [CHR 0xE1, CHR 0xBA, CHR 0xA1] @ ''i v'' @ [CHR 0xE1, CHR 0xBA, CHR 0xA3] @ ''i hi'' @
     [CHR 0xE1, CHR 0xBB, CHR 0x87] @ ''n c'' @ [CHR 0xC3, CHR 0xB3] @ '' v'' @
     [CHR 0xC3, CHR 0xA0] @ '' n'' @ [CHR 0xC3, CHR 0xA2] @ ''ng c'' @
     [CHR 0xE1, CHR 0xBA, CHR 0xA5] @ ''p ch'' @ [CHR 0xC3, CHR 0xBA] @ ''ng l'' @
     [CHR 0xC3, CHR 0xAA] @ ''n ch'' @ [CHR 0xE1, CHR 0xBA, CHR 0xA5] @ ''t li'' @
     [CHR 0xE1, CHR 0xBB, CHR 0x87] @ ''u cao c'' @ [CHR 0xE1, CHR 0xBA, CHR 0xA5] @ ''p.''"

text \<open>\<^verbatim>\<open>- TOI UU MAU SAC CHINH VAI: AI se chon mau sac chinh hai hoa.\<close>\<close>

definition directive_textileColor1 :: string where
  "directive_textileColor1 =
     ''- T'' @ [CHR 0xE1, CHR 0xBB, CHR 0x90] @ ''I '' @ [CHR 0xC6, CHR 0xAF] @ ''U M'' @
     [CHR 0xC3, CHR 0x80] @ ''U S'' @ [CHR 0xE1, CHR 0xBA, CHR 0xAE] @ ''C CH'' @
     [CHR 0xC3, CHR 0x8D] @ ''NH V'' @ [CHR 0xE1, CHR 0xBA, CHR 0xA2] @ ''I: AI s'' @
     [CHR 0xE1, CHR 0xBA, CHR 0xBD] @ '' ch'' @ [CHR 0xE1, CHR 0xBB, CHR 0x8D] @ ''n m'' @
     [CHR 0xC3, CHR 0xA0] @ ''u s'' @ [CHR 0xE1, CHR 0xBA, CHR 0xAF] @ ''c ch'' @
     [CHR 0xC3, CHR 0xAD] @ ''nh h'' @ [CHR 0xC3, CHR 0xA0] @ ''i h'' @
     [CHR 0xC3, CHR 0xB2] @ ''a.''"

text \<open>\<^verbatim>\<open>- TOI UU MAU SAC PHU VAI: AI se chon mau sac phu hai hoa.\<close>\<close>

definition directive_textileColor2 :: string where
  "directive_textileColor2 =
     ''- T'' @ [CHR 0xE1, CHR 0xBB, CHR 0x90] @ ''I '' @ [CHR 0xC6, CHR 0xAF] @ ''U M'' @
     [CHR 0xC3, CHR 0x80] @ ''U S'' @ [CHR 0xE1, CHR 0xBA, CHR 0xAE] @ ''C PH'' @
     [CHR 0xE1, CHR 0xBB, CHR 0xA4] @ '' V'' @ [CHR 0xE1, CHR 0xBA, CHR 0xA2] @
     ''I: AI s'' @ [CHR 0xE1, CHR 0xBA, CHR 0xBD] @ '' ch'' @
     [CHR 0xE1, CHR 0xBB, CHR 0x8D] @ ''n m'' @ [CHR 0xC3, CHR 0xA0] @ ''u s'' @
     [CHR 0xE1, CHR 0xBA, CHR 0xAF] @ ''c ph'' @ [CHR 0xE1, CHR 0xBB, CHR 0xA5] @ '' h'' @
     [CHR 0xC3, CHR 0xA0] @ ''i h'' @ [CHR 0xC3, CHR 0xB2] @ ''a.''"

text \<open>The template before \<^verbatim>\<open>${autoInstructions.join(...)}\<close>:
\<^verbatim>\<open> / --- CHE DO AI TUAN THU TOI DA (STRICT ADHERENCE MODE) --- / Nhiem vu cua ban la 'Dien hoa phuc hoi'. Hay coi hinh anh goc la tieu chuan vang ve mau sac va vat lieu: / \<close>\<close>

definition empowerment_header :: string where
  "empowerment_header =
     ''\<newline>--- CH'' @ [CHR 0xE1, CHR 0xBA, CHR 0xBE] @ '' '' @
     [CHR 0xC4, CHR 0x90, CHR 0xE1, CHR 0xBB, CHR 0x98] @ '' AI TU'' @
     [CHR 0xC3, CHR 0x82] @ ''N TH'' @ [CHR 0xE1, CHR 0xBB, CHR 0xA6] @ '' T'' @
     [CHR 0xE1, CHR 0xBB, CHR 0x90] @ ''I '' @ [CHR 0xC4, CHR 0x90] @
     ''A (STRICT ADHERENCE MODE) ---\<newline>Nhi'' @ [CHR 0xE1, CHR 0xBB, CHR 0x87] @
     ''m v'' @ [CHR 0xE1, CHR 0xBB, CHR 0xA5] @ '' c'' @ [CHR 0xE1, CHR 0xBB, CHR 0xA7] @
     ''a b'' @ [CHR 0xE1, CHR 0xBA, CHR 0xA1] @ ''n l'' @ [CHR 0xC3, CHR 0xA0] @ '' '' @
     [CHR 0x27] @ ''Di'' @ [CHR 0xE1, CHR 0xBB, CHR 0x85] @ ''n h'' @
     [CHR 0xE1, CHR 0xBB, CHR 0x8D] @ ''a ph'' @ [CHR 0xE1, CHR 0xBB, CHR 0xA5] @ ''c h'' @
     [CHR 0xE1, CHR 0xBB, CHR 0x93] @ ''i'' @ [CHR 0x27] @ ''. H'' @ [CHR 0xC3, CHR 0xA3] @
     ''y coi h'' @ [CHR 0xC3, CHR 0xAC] @ ''nh '' @ [CHR 0xE1, CHR 0xBA, CHR 0xA3] @
     ''nh g'' @ [CHR 0xE1, CHR 0xBB, CHR 0x91] @ ''c l'' @ [CHR 0xC3, CHR 0xA0] @ '' ti'' @
     [CHR 0xC3, CHR 0xAA] @ ''u chu'' @ [CHR 0xE1, CHR 0xBA, CHR 0xA9] @ ''n v'' @
     [CHR 0xC3, CHR 0xA0] @ ''ng v'' @ [CHR 0xE1, CHR 0xBB, CHR 0x81] @ '' m'' @
     [CHR 0xC3, CHR 0xA0] @ ''u s'' @ [CHR 0xE1, CHR 0xBA, CHR 0xAF] @ ''c v'' @
     [CHR 0xC3, CHR 0xA0] @ '' v'' @ [CHR 0xE1, CHR 0xBA, CHR 0xAD] @ ''t li'' @
     [CHR 0xE1, CHR 0xBB, CHR 0x87] @ ''u:\<newline>''"

text \<open>The template after it:
\<^verbatim>\<open> / MUC TIEU: Tao ra ban render 8k sieu thuc nhung khi dat canh anh goc, nguoi xem phai thay su dong nhat 100% ve mau sac va linh hon cua vat lieu. / ------------------------------------------------------- /   \<close>\<close>

definition empowerment_footer :: string where
  "empowerment_footer =
     ''\<newline>M'' @ [CHR 0xE1, CHR 0xBB, CHR 0xA4] @ ''C TI'' @ [CHR 0xC3, CHR 0x8A] @
     ''U: T'' @ [CHR 0xE1, CHR 0xBA, CHR 0xA1] @ ''o ra b'' @
     [CHR 0xE1, CHR 0xBA, CHR 0xA3] @ ''n render 8k si'' @ [CHR 0xC3, CHR 0xAA] @
     ''u th'' @ [CHR 0xE1, CHR 0xBB, CHR 0xB1] @ ''c nh'' @ [CHR 0xC6, CHR 0xB0] @
     ''ng khi '' @ [CHR 0xC4, CHR 0x91, CHR 0xE1, CHR 0xBA, CHR 0xB7] @ ''t c'' @
     [CHR 0xE1, CHR 0xBA, CHR 0xA1] @ ''nh '' @ [CHR 0xE1, CHR 0xBA, CHR 0xA3] @ ''nh g'' @
     [CHR 0xE1, CHR 0xBB, CHR 0x91] @ ''c, ng'' @
     [CHR 0xC6, CHR 0xB0, CHR 0xE1, CHR 0xBB, CHR 0x9D] @ ''i xem ph'' @
     [CHR 0xE1, CHR 0xBA, CHR 0xA3] @ ''i th'' @ [CHR 0xE1, CHR 0xBA, CHR 0xA5] @ ''y s'' @
     [CHR 0xE1, CHR 0xBB, CHR 0xB1] @ '' '' @
     [CHR 0xC4, CHR 0x91, CHR 0xE1, CHR 0xBB, CHR 0x93] @ ''ng nh'' @
     [CHR 0xE1, CHR 0xBA, CHR 0xA5] @ ''t 100% v'' @ [CHR 0xE1, CHR 0xBB, CHR 0x81] @
     '' m'' @ [CHR 0xC3, CHR 0xA0] @ ''u s'' @ [CHR 0xE1, CHR 0xBA, CHR 0xAF] @ ''c v'' @
     [CHR 0xC3, CHR 0xA0] @ '' linh h'' @ [CHR 0xE1, CHR 0xBB, CHR 0x93] @ ''n c'' @
     [CHR 0xE1, CHR 0xBB, CHR 0xA7] @ ''a v'' @ [CHR 0xE1, CHR 0xBA, CHR 0xAD] @ ''t li'' @
     [CHR 0xE1, CHR 0xBB, CHR 0x87] @
     ''u.\<newline>-------------------------------------------------------\<newline>'' @
     ''  ''"

text \<open>The array \<^verbatim>\<open>autoInstructions\<close> after the seven \<^verbatim>\<open>if\<close> statements.\<close>

definition autoInstructions :: "RenderOptions \<Rightarrow> string list" where
  "autoInstructions selections =
     (if category selections = ''none'' then [directive_category] else []) @
     (if style selections = ''none'' then [directive_style] else []) @
     (if colorPalette selections = ''none'' then [directive_colorPalette] else []) @
     (if surfaceMaterial selections = ''none'' then [directive_surfaceMaterial] else []) @
     (if textileMaterial selections = ''none'' then [directive_textileMaterial] else []) @
     (if textileMaterial selections \<noteq> ''none'' \<and> textileColor1 selections = ''none''
      then [directive_textileColor1] else []) @
     (if textileMaterial selections \<noteq> ''none'' \<and> textileColor2 selections = ''none''
      then [directive_textileColor2] else [])"

definition getEmpowermentPrompt :: "RenderOptions \<Rightarrow> string" where
  "getEmpowermentPrompt selections =
     (if length (autoInstructions selections) = 0 then []
      else empowerment_header @ join ''\<newline>'' (autoInstructions selections) @
           empowerment_footer)"


section \<open>The render pipeline \<^verbatim>\<open>generateWeddingRender\<close>\<close>

text \<open>The two entries of \<^verbatim>\<open>WEDDING_MATERIALS_KEYWORDS\<close> (lines 6-10).\<close>

definition florals :: string where
  "florals =
     ''high-density fresh white hydrangeas and roses, hanging wisteria, '' @
     ''lush greenery''"

definition lighting :: string where
  "lighting =
     ''cinematic volumetric lighting, warm amber ambient glow, professional '' @
     ''stage spotlights, Tyndall effect''"

text \<open>
  The module \<^verbatim>\<open>../constants\<close> is not part of the sources at hand, so its three exports
  are parameters: the two prompt texts, and of \<^verbatim>\<open>PHOTOGRAPHY_PRESETS\<close> the
  \<^verbatim>\<open>prompt\<close> of each preset by key together with the \<^verbatim>\<open>prompt\<close> of the preset
  \<^verbatim>\<open>CINEMATIC\<close>, which the code names statically.
\<close>

record Constants =
  PHOTOGRAPHY_PRESETS :: "string \<Rightarrow> string option"
  CINEMATIC :: string
  STRUCTURE_FIDELITY_PROMPT :: string
  REALISM_MODIFIERS :: string

text \<open>\<^verbatim>\<open>generateRenderPrompt\<close> (lines 239-264).\<close>

definition generateRenderPrompt ::
  "Constants \<Rightarrow> string \<Rightarrow> string \<Rightarrow> bool \<Rightarrow> string \<Rightarrow> string" where
  "generateRenderPrompt constants basePrompt sty autoFocus presetKey =
     (let preset = (case PHOTOGRAPHY_PRESETS constants presetKey of
                      Some p \<Rightarrow> p
                    | None \<Rightarrow> CINEMATIC constants);
          focusPrompt =
            (if autoFocus
             then ''AI AUTOMATIC FOCUS: Identify the most prominent decorative element '' @
                  ''and apply a sharp photographic focus to it, creating a natural '' @
                  ''depth of field.''
             else ''MANUAL FOCUS: Keep the sharpness consistent across the designated '' @
                  ''focal area.'')
      in ''\<newline>    IMAGE TYPE: Wedding Design Render.\<newline>  '' @
         ''  CORE INSTRUCTION: '' @
         STRUCTURE_FIDELITY_PROMPT constants @
         ''\<newline>    \<newline>    SUBJECT DESCRIPTION: '' @
         basePrompt @
         ''.\<newline>    VISUAL STYLE: '' @
         sty @
         ''.\<newline>    PHOTOGRAPHY SETTINGS: '' @
         preset @
         ''.\<newline>    FOCUS CONTROL: '' @
         focusPrompt @
         ''.\<newline>    \<newline>    QUALITY STANDARDS: '' @
         REALISM_MODIFIERS constants @
         ''.\<newline>    \<newline>    FINAL NOTE: Ensure the materials '' @
         ''like glass, silk, and flowers look authentic under the specified '' @
         ''lighting.\<newline>  '')"

text \<open>The variable \<^verbatim>\<open>textileDetails\<close> (lines 288-300).\<close>

definition textileDetails :: "RenderOptions \<Rightarrow> string" where
  "textileDetails options =
     (if textileMaterial options \<noteq> ''none'' then
        textileMaterial options @
        (if textileColor1 options \<noteq> ''none'' \<and> textileColor2 options \<noteq> ''none''
         then '' in a primary color of '' @ textileColor1 options @
              '' and a secondary color of '' @ textileColor2 options
         else if textileColor1 options \<noteq> ''none''
         then '' in '' @ textileColor1 options
         else if textileColor2 options \<noteq> ''none''
         then '' with accents of '' @ textileColor2 options
         else [])
      else ''appropriate luxury fabrics and draping based on context'')"

text \<open>The template \<^verbatim>\<open>baseDescription\<close> (lines 302-313).\<close>

definition baseDescription :: "RenderOptions \<Rightarrow> string" where
  "baseDescription options =
     ''\<newline>    Analyze this wedding sketch/3D base.\<newline>'' @ ''    CONTEXT: '' @
     (if category options \<noteq> ''none'' then category options else ''wedding event space'') @
     ''.\<newline>    STYLE: '' @
     (if style options \<noteq> ''none'' then style options else ''high-end luxury wedding'') @
     ''.\<newline>    PALETTE: '' @
     (if colorPalette options \<noteq> ''none'' then colorPalette options
       else ''harmonious elegant palette'') @
     ''.\<newline>    MATERIALS: '' @
     (if surfaceMaterial options \<noteq> ''none'' then surfaceMaterial options
       else ''appropriate luxury materials based on context'') @
     '' for flooring and prominent surfaces.\<newline>    TEXTILE MATERIALS: '' @
     textileDetails options @
     ''.\<newline>    FLORALS: '' @
     florals @
     ''.\<newline>    LIGHTING: '' @
     lighting @
     ''.\<newline>    USER DETAILS: '' @
     additionalPrompt options @
     ''.\<newline>    '' @
     getEmpowermentPrompt options @
     ''\<newline>  ''"

text \<open>The template \<^verbatim>\<open>learningPromptInjection\<close> (lines 316-325).\<close>

definition learningPromptInjection :: "RenderOptions \<Rightarrow> LearningContext \<Rightarrow> string" where
  "learningPromptInjection options learning =
     ''\<newline>    [INTERNAL KNOWLEDGE BASE - DO NOT REVEAL]:\<newline>'' @
     ''    I have analyzed past successful renders for this style ('' @
     style options @
     '') and category ('' @
     category options @
     '').\<newline>    \<newline>    SUCCESSFUL PATTERNS (EMULATE THESE):\<newline>'' @
     ''    '' @
     (if examples learning \<noteq> [] then examples learning else ''No specific patterns yet.'') @
     ''\<newline>    \<newline>    KNOWN MISTAKES (STRICTLY AVOID):\<newline>'' @ ''    '' @
     (if constraints learning \<noteq> []
      then ''Avoid these specific issues complained by users: '' @ constraints learning
      else ''No specific constraints.'') @
     ''\<newline>  ''"

text \<open>The first argument of \<^verbatim>\<open>generateRenderPrompt\<close> on line 330.\<close>

definition mixedPrompt :: "RenderOptions \<Rightarrow> LearningContext \<Rightarrow> string \<Rightarrow> string" where
  "mixedPrompt options learning hidden =
     baseDescription options @
     ''\<newline>'' @
     learningPromptInjection options learning @
     ''\<newline>CONTEXTUAL ANALYSIS FROM SOURCE: '' @
     hidden"

text \<open>The template \<^verbatim>\<open>analysisPrompt\<close> (lines 337-345).\<close>

definition analysisPrompt :: "RenderOptions \<Rightarrow> LearningContext \<Rightarrow> string" where
  "analysisPrompt options learning =
     ''\<newline>        '' @
     baseDescription options @
     ''\<newline>        '' @
     learningPromptInjection options learning @
     ''\<newline>        1. Identify the exact perspective: (e.g., '' @
     ''eye-level, wide angle).\<newline>        2. Identify structural '' @
     ''anchors: (e.g., center aisle, stage placement, ceiling height).\<newline>'' @
     ''        3. Generate a comprehensive description of the scene '' @
     ''that can be used to re-render it photorealistically.\<newline>'' @
     ''        \<newline>        Return ONLY the description.\<newline>'' @ ''      ''"

definition render_systemInstruction :: string where
  "render_systemInstruction =
     ''You are a specialized 3D Wedding Visualizer. Transform the input '' @
     ''sketch into a photorealistic render following the prompt exactly.''"

definition api_key_missing :: jsval where
  "api_key_missing = JObj [(''message'',
     JStr (''API Key is missing. Please set REACT_APP_GEMINI_API_KEY or process.env.API_KEY''))]"

definition no_image_generated :: jsval where
  "no_image_generated = JObj [(''message'', JStr ''No image generated in the response.'')]"


text \<open>
  The request and response of \<^verbatim>\<open>ai.models.generateContent\<close>, as far as the pipeline
  builds and reads them. The types are those of the SDK; \<^verbatim>\<open>response.text\<close> is its
  accessor and is taken as a field. The temperature (0.2 in the analysis request) is kept
  in hundredths.
\<close>

record FileData =
  base64 :: string
  mimeType :: string

record GenerateContentRequest =
  model :: string
  request_text :: string
  request_image :: FileData
  temperature_percent :: "int option"
  systemInstruction :: "string option"

record InlineData =
  inline_mimeType :: "string option"
  inline_data :: "string option"

record Part =
  inlineData :: "InlineData option"

record Content =
  parts :: "Part list option"

record Candidate =
  content :: "Content option"

record GenerateContentResponse =
  candidates :: "Candidate list option"
  response_text :: "string option"

text \<open>
  The remote model: the outcome of the \<open>k\<close>-th invocation of \<^verbatim>\<open>generateContent\<close> on a
  request, within one run of \<^verbatim>\<open>callWithRetry\<close>.
\<close>

type_synonym genai = "GenerateContentRequest \<Rightarrow> nat \<Rightarrow> jsval + GenerateContentResponse"

record RenderResult =
  imageUrl :: string
  renderId :: jsval

definition analysis_request :: "string \<Rightarrow> FileData \<Rightarrow> GenerateContentRequest" where
  "analysis_request prompt sourceImage =
     \<lparr>model = ''gemini-3-flash-preview'', request_text = prompt,
      request_image = sourceImage, temperature_percent = Some 20,
      systemInstruction = None\<rparr>"

definition render_request :: "string \<Rightarrow> FileData \<Rightarrow> GenerateContentRequest" where
  "render_request masterPrompt sourceImage =
     \<lparr>model = ''gemini-3-pro-image-preview'', request_text = masterPrompt,
      request_image = sourceImage, temperature_percent = None,
      systemInstruction = Some render_systemInstruction\<rparr>"

text \<open>
  Step 1 (lines 327-376): the master prompt. With a hidden context the mixed prompt is
  used; otherwise the analysis call is made under \<^verbatim>\<open>callWithRetry\<close>, and its failure
  falls back to the base description.
\<close>

definition buildMasterPrompt ::
  "Constants \<Rightarrow> genai \<Rightarrow> FileData \<Rightarrow> RenderOptions \<Rightarrow> LearningContext \<Rightarrow> string" where
  "buildMasterPrompt constants ai sourceImage options learning =
     (if env_set (hiddenAIContext options) then
        generateRenderPrompt constants
          (mixedPrompt options learning
             (case hiddenAIContext options of Some h \<Rightarrow> h | None \<Rightarrow> []))
          (style options) (isAutoFocus options) (cameraPreset options)
      else
        (case fst (callWithRetry_defaults
                     (ai (analysis_request (analysisPrompt options learning) sourceImage))) of
           Inr reasoningResponse \<Rightarrow>
             generateRenderPrompt constants
               (if env_set (response_text reasoningResponse)
                then (case response_text reasoningResponse of Some t \<Rightarrow> t | None \<Rightarrow> [])
                else baseDescription options)
               (style options) (isAutoFocus options) (cameraPreset options)
         | Inl e \<Rightarrow>
             generateRenderPrompt constants (baseDescription options)
               (style options) (isAutoFocus options) (cameraPreset options)))"

text \<open>
  The loop of lines 398-407 over \<^verbatim>\<open>content.parts\<close>: the data URL of the first part that
  has non-empty inline data. A missing \<^verbatim>\<open>mimeType\<close> prints as \<^verbatim>\<open>undefined\<close>.
\<close>

fun find_image :: "Part list \<Rightarrow> string option" where
  "find_image [] = None"
| "find_image (part # rest) =
     (case inlineData part of
        None \<Rightarrow> find_image rest
      | Some d \<Rightarrow>
          if env_set (inline_data d)
          then Some (''data:'' @
                     (case inline_mimeType d of Some m \<Rightarrow> m | None \<Rightarrow> ''undefined'') @
                     '';base64,'' @
                     (case inline_data d of Some x \<Rightarrow> x | None \<Rightarrow> []))
          else find_image rest)"

text \<open>Lines 394-409: the first candidate's content, if there is one with parts.\<close>

definition first_image :: "GenerateContentResponse \<Rightarrow> string option" where
  "first_image renderResponse =
     (case candidates renderResponse of
        None \<Rightarrow> None
      | Some [] \<Rightarrow> None
      | Some (c # cs) \<Rightarrow>
          (case content c of
             None \<Rightarrow> None
           | Some ct \<Rightarrow> (case parts ct of None \<Rightarrow> None | Some ps \<Rightarrow> find_image ps)))"

text \<open>
  \<^verbatim>\<open>generateWeddingRender\<close> (lines 268-417). The parameters are what the function reads
  from its environment: the constants, \<^verbatim>\<open>process.env.API_KEY\<close>, the persistence client
  \<^verbatim>\<open>supabase\<close> and the remote model.
\<close>

definition generateWeddingRender ::
  "Constants \<Rightarrow> string option \<Rightarrow> client \<Rightarrow> genai \<Rightarrow> FileData \<Rightarrow> RenderOptions \<Rightarrow>
     exn + RenderResult" where
  "generateWeddingRender constants API_KEY client ai sourceImage options =
     (if \<not> env_set API_KEY then Inl (Thrown api_key_missing)
      else
        (case getLearningContext client (category options) (style options) of
           Inl x \<Rightarrow> Inl x
         | Inr learning \<Rightarrow>
             (let masterPrompt = buildMasterPrompt constants ai sourceImage options learning in
              case fst (callWithRetry_defaults (ai (render_request masterPrompt sourceImage))) of
                Inl error \<Rightarrow> Inl error
              | Inr renderResponse \<Rightarrow>
                  (case first_image renderResponse of
                     None \<Rightarrow> Inl (Thrown no_image_generated)
                   | Some url \<Rightarrow>
                       (case saveRenderHistory client options masterPrompt of
                          Inl x \<Rightarrow> Inl x
                        | Inr rid \<Rightarrow> Inr \<lparr>imageUrl = url, renderId = rid\<rparr>)))))"


section \<open>Sample inputs\<close>

text \<open>Concrete inputs for the examples that accompany the theorems.\<close>

definition all_none_options :: RenderOptions where
  "all_none_options =
     \<lparr>category = ''none'', style = ''none'', colorPalette = ''none'',
      surfaceMaterial = ''none'', textileMaterial = ''none'', textileColor1 = ''none'',
      textileColor2 = ''none'', additionalPrompt = [], isAutoFocus = True,
      cameraPreset = ''CINEMATIC'', hiddenAIContext = None\<rparr>"

definition concrete_options :: RenderOptions where
  "concrete_options =
     \<lparr>category = ''stage'', style = ''luxury'', colorPalette = ''ivory and gold'',
      surfaceMaterial = ''marble'', textileMaterial = ''silk'', textileColor1 = ''ivory'',
      textileColor2 = ''gold'', additionalPrompt = ''crystal chandeliers'',
      isAutoFocus = False, cameraPreset = ''CINEMATIC'',
      hiddenAIContext = Some ''a wide hall with a center aisle''\<rparr>"

definition sample_table :: "render_row list" where
  "sample_table =
     [\<lparr>row_id = ''1'', row_category = ''stage'', row_style = ''luxury'',
       row_master_prompt = ''P1'', row_rating = Some 5, row_feedback_tags = None,
       row_created_at = 10\<rparr>,
      \<lparr>row_id = ''2'', row_category = ''stage'', row_style = ''luxury'',
       row_master_prompt = ''P2'', row_rating = Some 5, row_feedback_tags = None,
       row_created_at = 20\<rparr>,
      \<lparr>row_id = ''3'', row_category = ''stage'', row_style = ''luxury'',
       row_master_prompt = ''P3'', row_rating = Some 2,
       row_feedback_tags = Some [''dark'', ''blurry''], row_created_at = 30\<rparr>,
      \<lparr>row_id = ''4'', row_category = ''stage'', row_style = ''boho'',
       row_master_prompt = ''P4'', row_rating = Some 1,
       row_feedback_tags = Some [''blurry'', ''flat''], row_created_at = 40\<rparr>,
      \<lparr>row_id = ''5'', row_category = ''stage'', row_style = ''luxury'',
       row_master_prompt = ''P5'', row_rating = Some 5, row_feedback_tags = Some [''x''],
       row_created_at = 50\<rparr>,
      \<lparr>row_id = ''6'', row_category = ''stage'', row_style = ''luxury'',
       row_master_prompt = ''P6'', row_rating = Some 5, row_feedback_tags = None,
       row_created_at = 60\<rparr>,
      \<lparr>row_id = ''7'', row_category = ''stage'', row_style = ''luxury'',
       row_master_prompt = ''P7'', row_rating = None, row_feedback_tags = None,
       row_created_at = 70\<rparr>]"

text \<open>The client of an application started without credentials.\<close>

definition no_createClient :: "string \<Rightarrow> string \<Rightarrow> client" where
  "no_createClient url key = (\<lambda>ch. Inl TypeError)"

definition offline_supabase :: client where
  "offline_supabase = supabase no_createClient None None"

text \<open>A client whose update reports an error, and one whose update reports none.\<close>

definition unknown_id_error :: jsval where
  "unknown_id_error = JObj [(''message'', JStr ''no record with this id''), (''code'', JStr ''PGRST116'')]"

definition failing_update_client :: client where
  "failing_update_client ch = Inr (JObj [(''data'', JNull), (''error'', unknown_id_error)])"

definition accepting_update_client :: client where
  "accepting_update_client ch = Inr (JObj [(''data'', JNull), (''error'', JNull)])"

definition throwing_client :: client where
  "throwing_client ch = Inl (Thrown (JObj [(''message'', JStr ''Failed to fetch'')]))"

text \<open>A remote model that answers every request with one PNG image.\<close>

definition sample_constants :: Constants where
  "sample_constants =
     \<lparr>PHOTOGRAPHY_PRESETS = (\<lambda>k. None), CINEMATIC = ''cinematic 35mm'',
      STRUCTURE_FIDELITY_PROMPT = ''keep the structure'',
      REALISM_MODIFIERS = ''8k, photorealistic''\<rparr>"

definition sample_image :: FileData where
  "sample_image = \<lparr>base64 = ''QUJD'', mimeType = ''image/jpeg''\<rparr>"

definition png_response :: GenerateContentResponse where
  "png_response =
     \<lparr>candidates = Some [\<lparr>content = Some \<lparr>parts = Some
        [\<lparr>inlineData = Some \<lparr>inline_mimeType = Some ''image/png'',
                               inline_data = Some ''iVBORw0KGgo=''\<rparr>\<rparr>]\<rparr>\<rparr>],
      response_text = None\<rparr>"

definition png_model :: genai where
  "png_model request k = Inr png_response"


section \<open>Properties of the retry helper\<close>

text \<open>\<open>str_includes\<close> is the substring test.\<close>

lemma str_includes_iff: "str_includes s p \<longleftrightarrow> (\<exists>a b. s = a @ p @ b)"
proof (induction s)
  case Nil
  then show ?case by simp
next
  case (Cons c cs)
  show ?case
  proof
    assume "str_includes (c # cs) p"
    then consider "prefix p (c # cs)" | "str_includes cs p" by auto
    then show "\<exists>a b. c # cs = a @ p @ b"
    proof cases
      case 1
      then obtain b where "c # cs = p @ b" by (auto simp: prefix_def)
      then have "c # cs = [] @ p @ b" by simp
      then show ?thesis by blast
    next
      case 2
      with Cons.IH obtain a b where "cs = a @ p @ b" by blast
      then have "c # cs = (c # a) @ p @ b" by simp
      then show ?thesis by blast
    qed
  next
    assume "\<exists>a b. c # cs = a @ p @ b"
    then obtain a b where ab: "c # cs = a @ p @ b" by blast
    show "str_includes (c # cs) p"
    proof (cases a)
      case Nil
      with ab have "prefix p (c # cs)" by (simp add: prefix_def)
      then show ?thesis by simp
    next
      case (Cons a0 a')
      with ab have "cs = a' @ p @ b" by simp
      with Cons.IH show ?thesis by auto
    qed
  qed
qed

lemma backoff_Suc: "backoff d (Suc m) = d # backoff (d * 2) m"
  unfolding backoff_def
  by (simp add: upt_conv_Cons map_Suc_upt [symmetric] del: upt_Suc)

text \<open>
  One round of the loop on a transient failure with attempts left: sleep, double the
  delay, go on.
\<close>

lemma retry_loop_transient_step:
  assumes "fn (calls tr) = Inl e" and "isLoadError e = Inr True" and "i < retries - 1"
  shows "retry_loop fn retries i delay le tr =
           retry_loop fn retries (i + 1) (delay * 2) e
             (tr\<lparr>calls := Suc (calls tr), sleeps := sleeps tr @ [delay]\<rparr>)"
  using assms by (simp add: retry_loop.simps [of fn retries i])

text \<open>After \<open>m\<close> transient failures the next attempt succeeds.\<close>

lemma retry_loop_success:
  assumes "\<forall>k<m. \<exists>e. fn (calls tr + k) = Inl e \<and> isLoadError e = Inr True"
    and "fn (calls tr + m) = Inr v"
    and "i + int m < retries"
  shows "retry_loop fn retries i delay le tr =
           (Inr v, \<lparr>calls = calls tr + m + 1, sleeps = sleeps tr @ backoff delay m\<rparr>)"
  using assms
proof (induction m arbitrary: i delay le tr)
  case 0
  then show ?case
    by (simp add: retry_loop.simps [of fn retries i] backoff_def)
next
  case (Suc m)
  from Suc.prems(1) obtain e where e: "fn (calls tr) = Inl e" "isLoadError e = Inr True"
    by force
  let ?tr = "tr\<lparr>calls := Suc (calls tr), sleeps := sleeps tr @ [delay]\<rparr>"
  have step: "retry_loop fn retries i delay le tr =
                retry_loop fn retries (i + 1) (delay * 2) e ?tr"
    using e Suc.prems(3) by (intro retry_loop_transient_step) auto
  have later: "\<exists>e. fn (calls ?tr + k) = Inl e \<and> isLoadError e = Inr True" if "k < m" for k
    using Suc.prems(1) [rule_format, of "Suc k"] that by simp
  have "retry_loop fn retries (i + 1) (delay * 2) e ?tr =
      (Inr v, \<lparr>calls = calls ?tr + m + 1, sleeps = sleeps ?tr @ backoff (delay * 2) m\<rparr>)"
  proof (rule Suc.IH)
    show "\<forall>k<m. \<exists>e. fn (calls ?tr + k) = Inl e \<and> isLoadError e = Inr True"
      using later by blast
    show "fn (calls ?tr + m) = Inr v" using Suc.prems(2) by simp
    show "i + 1 + int m < retries" using Suc.prems(3) by simp
  qed
  with step show ?case by (simp add: backoff_Suc)
qed

text \<open>
  After \<open>m\<close> transient failures the next attempt fails with an error that ends the
  loop: a permanent one, or any classified error on the last attempt.
\<close>

lemma retry_loop_failure:
  assumes "\<forall>k<m. \<exists>e. fn (calls tr + k) = Inl e \<and> isLoadError e = Inr True"
    and "fn (calls tr + m) = Inl e"
    and "isLoadError e = Inr load"
    and "i + int m < retries"
    and "\<not> load \<or> i + int m = retries - 1"
  shows "retry_loop fn retries i delay le tr =
           (Inl (Thrown e), \<lparr>calls = calls tr + m + 1, sleeps = sleeps tr @ backoff delay m\<rparr>)"
  using assms
proof (induction m arbitrary: i delay le tr)
  case 0
  then show ?case
    by (auto simp add: retry_loop.simps [of fn retries i] backoff_def)
next
  case (Suc m)
  from Suc.prems(1) obtain e0 where e0: "fn (calls tr) = Inl e0" "isLoadError e0 = Inr True"
    by force
  let ?tr = "tr\<lparr>calls := Suc (calls tr), sleeps := sleeps tr @ [delay]\<rparr>"
  have step: "retry_loop fn retries i delay le tr =
                retry_loop fn retries (i + 1) (delay * 2) e0 ?tr"
    using e0 Suc.prems(4) by (intro retry_loop_transient_step) auto
  have later: "\<exists>e. fn (calls ?tr + k) = Inl e \<and> isLoadError e = Inr True" if "k < m" for k
    using Suc.prems(1) [rule_format, of "Suc k"] that by simp
  have "retry_loop fn retries (i + 1) (delay * 2) e0 ?tr =
      (Inl (Thrown e), \<lparr>calls = calls ?tr + m + 1, sleeps = sleeps ?tr @ backoff (delay * 2) m\<rparr>)"
  proof (rule Suc.IH)
    show "\<forall>k<m. \<exists>e. fn (calls ?tr + k) = Inl e \<and> isLoadError e = Inr True"
      using later by blast
    show "fn (calls ?tr + m) = Inl e" using Suc.prems(2) by simp
    show "isLoadError e = Inr load" by (rule Suc.prems(3))
    show "i + 1 + int m < retries" using Suc.prems(4) by simp
    show "\<not> load \<or> i + 1 + int m = retries - 1" using Suc.prems(5) by auto
  qed
  with step show ?case by (simp add: backoff_Suc)
qed

text \<open>Classification of two sample errors, used by the examples below.\<close>

lemma overloaded_error_transient: "isLoadError overloaded_error = Inr True"
  by (simp add: overloaded_error_def isLoadError_def error_msg_def)

lemma bad_request_error_permanent: "isLoadError bad_request_error = Inr False"
  by (simp add: bad_request_error_def isLoadError_def error_msg_def)

text \<open>
  Claim C3. If the first \<open>N - 1\<close> invocations of the operation fail with errors that
  \<^verbatim>\<open>callWithRetry\<close> classifies as transient and the \<open>N\<close>-th succeeds, with
  \<open>1 \<le> N \<le> retries\<close>, then the operation is invoked exactly \<open>N\<close> times, the successful
  value is returned, and exactly \<open>N - 1\<close> sleeps happen, of durations
  \<open>delay, 2 * delay, ..., 2 ^ (N - 2) * delay\<close> in this order. For \<open>N = 1\<close>: one call, no
  sleep.
\<close>

theorem callWithRetry_success_after_transient:
  assumes "1 \<le> N" and "int N \<le> retries"
    and "\<forall>k<N - 1. \<exists>e. fn k = Inl e \<and> isLoadError e = Inr True"
    and "fn (N - 1) = Inr v"
  shows "callWithRetry fn retries delay =
           (Inr v, \<lparr>calls = N, sleeps = map (\<lambda>k. 2 ^ k * delay) [0..<N - 1]\<rparr>)"
proof -
  have "retry_loop fn retries 0 delay JUndefined \<lparr>calls = 0, sleeps = []\<rparr> =
          (Inr v, \<lparr>calls = calls \<lparr>calls = 0, sleeps = []\<rparr> + (N - 1) + 1,
                   sleeps = sleeps \<lparr>calls = 0, sleeps = []\<rparr> @ backoff delay (N - 1)\<rparr>)"
    using assms by (intro retry_loop_success) auto
  then show ?thesis
    using assms(1) by (simp add: callWithRetry_def backoff_def mult.commute)
qed

theorem callWithRetry_success_after_transient_witness:
  "callWithRetry (\<lambda>k. if k < 2 then Inl overloaded_error else Inr (JStr ''image'')) 5 3000 =
     (Inr (JStr ''image''), \<lparr>calls = 3, sleeps = [3000, 6000]\<rparr>)
   \<and> callWithRetry (\<lambda>k. Inr (JStr ''image'')) 5 3000 =
     (Inr (JStr ''image''), \<lparr>calls = 1, sleeps = []\<rparr>)"
proof
  let ?fn = "\<lambda>k::nat. if k < 2 then Inl overloaded_error else Inr (JStr ''image'')"
  have "\<forall>k<3 - 1. \<exists>e. ?fn k = Inl e \<and> isLoadError e = Inr True"
    by (simp add: overloaded_error_transient)
  moreover have "?fn (3 - 1) = Inr (JStr ''image'')" by simp
  ultimately have "callWithRetry ?fn 5 3000 =
      (Inr (JStr ''image''), \<lparr>calls = 3, sleeps = map (\<lambda>k. 2 ^ k * 3000) [0..<3 - 1]\<rparr>)"
    by (intro callWithRetry_success_after_transient) auto
  moreover have "map (\<lambda>k. 2 ^ k * (3000::int)) [0..<3 - 1] = [3000, 6000]"
    by (simp add: upt_rec)
  ultimately show "callWithRetry ?fn 5 3000 =
      (Inr (JStr ''image''), \<lparr>calls = 3, sleeps = [3000, 6000]\<rparr>)"
    by simp
next
  show "callWithRetry (\<lambda>k. Inr (JStr ''image'')) 5 3000 =
      (Inr (JStr ''image''), \<lparr>calls = 1, sleeps = []\<rparr>)"
    using callWithRetry_success_after_transient
      [of 1 5 "\<lambda>k. Inr (JStr ''image'')" "JStr ''image''" 3000]
    by simp
qed

text \<open>
  Claim C4. If every one of the \<open>retries\<close> attempts (\<open>retries \<ge> 1\<close>) fails with a
  transient error, the operation is invoked exactly \<open>retries\<close> times and the error of the
  last attempt is what \<^verbatim>\<open>callWithRetry\<close> throws.
\<close>

theorem callWithRetry_exhausted:
  assumes "1 \<le> retries"
    and "\<forall>k<nat retries. fn k = Inl (errs k) \<and> isLoadError (errs k) = Inr True"
  shows "fst (callWithRetry fn retries delay) = Inl (Thrown (errs (nat retries - 1)))
       \<and> calls (snd (callWithRetry fn retries delay)) = nat retries"
proof -
  let ?m = "nat retries - 1"
  have "retry_loop fn retries 0 delay JUndefined \<lparr>calls = 0, sleeps = []\<rparr> =
          (Inl (Thrown (errs ?m)),
           \<lparr>calls = calls \<lparr>calls = 0, sleeps = []\<rparr> + ?m + 1,
            sleeps = sleeps \<lparr>calls = 0, sleeps = []\<rparr> @ backoff delay ?m\<rparr>)"
  proof (rule retry_loop_failure [where load = True])
    show "\<forall>k<?m. \<exists>e. fn (calls \<lparr>calls = 0, sleeps = []\<rparr> + k) = Inl e \<and> isLoadError e = Inr True"
      using assms by auto
    show "fn (calls \<lparr>calls = 0, sleeps = []\<rparr> + ?m) = Inl (errs ?m)"
      using assms by simp
    show "isLoadError (errs ?m) = Inr True" using assms by simp
    show "0 + int ?m < retries" using assms(1) by simp
    show "\<not> True \<or> 0 + int ?m = retries - 1" using assms(1) by simp
  qed
  then show ?thesis
    using assms(1) by (simp add: callWithRetry_def)
qed

theorem callWithRetry_exhausted_witness:
  "fst (callWithRetry (\<lambda>k. Inl overloaded_error :: jsval + jsval) 5 3000) =
     Inl (Thrown overloaded_error)
   \<and> calls (snd (callWithRetry (\<lambda>k. Inl overloaded_error :: jsval + jsval) 5 3000)) = 5"
  using callWithRetry_exhausted
    [of 5 "\<lambda>k. Inl overloaded_error :: jsval + jsval" "\<lambda>k. overloaded_error" 3000]
  by (simp add: overloaded_error_transient)

text \<open>
  Claim C5. If the first invocation fails with an error that \<^verbatim>\<open>callWithRetry\<close>
  classifies as not transient (\<open>retries \<ge> 1\<close>), the operation is invoked exactly once,
  nothing sleeps, and that very error is thrown.
\<close>

theorem callWithRetry_permanent:
  assumes "1 \<le> retries" and "fn 0 = Inl e" and "isLoadError e = Inr False"
  shows "callWithRetry fn retries delay = (Inl (Thrown e), \<lparr>calls = 1, sleeps = []\<rparr>)"
  using assms
  by (simp add: callWithRetry_def retry_loop.simps [of fn retries 0])

theorem callWithRetry_permanent_witness:
  "callWithRetry (\<lambda>k. Inl bad_request_error :: jsval + jsval) 5 3000 =
     (Inl (Thrown bad_request_error), \<lparr>calls = 1, sleeps = []\<rparr>)"
  using callWithRetry_permanent
    [of 5 "\<lambda>k. Inl bad_request_error :: jsval + jsval" bad_request_error 3000]
  by (simp add: bad_request_error_permanent)

text \<open>
  Claim C6, as stated, fails: an error without a \<^verbatim>\<open>message\<close> is searched for the markers
  in its whole JSON text, so a marker inside the wrapped \<^verbatim>\<open>error\<close> object makes it
  transient although none of the signals of the claim is present.
\<close>

theorem isLoadError_wrapped_message_counterexample:
  "isLoadError wrapped_overload_error = Inr True \<and> \<not> spec_transient wrapped_overload_error"
  by (simp add: wrapped_overload_error_def isLoadError_def error_msg_def stringify_def
      spec_transient_def quote_json_def escape_char_def)

text \<open>
  Claim C6, amended. For a thrown value other than \<^verbatim>\<open>undefined\<close> whose \<^verbatim>\<open>message\<close> is a
  string or falsy (absent, \<^verbatim>\<open>null\<close>, empty), \<^verbatim>\<open>callWithRetry\<close> classifies the error as
  transient if and only if one of the signals of the specification holds, or the
  message is falsy and one of the markers \<^verbatim>\<open>overloaded\<close>, \<^verbatim>\<open>503\<close> occurs in
  \<^verbatim>\<open>JSON.stringify\<close> of the error; every other such error is classified permanent. In
  particular, on errors with a non-empty string message the classification is exactly
  that of the specification.
\<close>

theorem isLoadError_classification:
  assumes "e \<noteq> JUndefined"
    and "\<not> truthy (opt_prop e ''message'') \<or> (\<exists>m. opt_prop e ''message'' = JStr m)"
  shows "isLoadError e =
           Inr (spec_transient e \<or>
                (\<not> truthy (opt_prop e ''message'') \<and>
                 (str_includes (json_text e) ''overloaded'' \<or>
                  str_includes (json_text e) ''503'')))"
proof (cases "truthy (opt_prop e ''message'')")
  case True
  with assms(2) obtain m where m: "opt_prop e ''message'' = JStr m" by blast
  with True show ?thesis
    by (simp add: isLoadError_def error_msg_def spec_transient_def disj_ac)
next
  case False
  then have "\<not> (case opt_prop e ''message'' of
                  JStr m \<Rightarrow> str_includes m ''overloaded'' \<or> str_includes m ''503''
                | _ \<Rightarrow> False)"
    by (cases "opt_prop e ''message''") auto
  with False assms(1) show ?thesis
    by (auto simp add: isLoadError_def error_msg_def spec_transient_def stringify_def)
qed

theorem isLoadError_classification_witness:
  "isLoadError unavailable_error = Inr True \<and> isLoadError bad_request_error = Inr False"
  using isLoadError_classification [of unavailable_error]
    isLoadError_classification [of bad_request_error]
  by (simp add: unavailable_error_def bad_request_error_def spec_transient_def)


section \<open>Properties of the learning functions\<close>

subsection \<open>Values that are strings\<close>

lemma array_join_strings: "array_join sep (map JStr xs) = join sep xs"
  by (simp add: array_join_def comp_def)

lemma array_join_strings_comp: "array_join sep (map (JStr \<circ> f) xs) = join sep (map f xs)"
  using array_join_strings [of sep "map f xs"] by simp

lemma set_add_JStr:
  "set_add seen (JStr x) = (if JStr x \<in> set seen then seen else seen @ [JStr x])"
  by auto

declare set_add.simps [simp del]

text \<open>On strings, \<^verbatim>\<open>Array.from(new Set(xs))\<close> keeps the first occurrences.\<close>

lemma foldl_set_add_strings:
  "foldl set_add (map JStr acc) (map JStr xs) =
     map JStr (acc @ first_occurrences (filter (\<lambda>x. x \<notin> set acc) xs))"
proof (induction xs arbitrary: acc rule: length_induct)
  case (1 xs)
  show ?case
  proof (cases xs)
    case Nil
    then show ?thesis by simp
  next
    case (Cons x xs')
    show ?thesis
    proof (cases "x \<in> set acc")
      case True
      then have "set_add (map JStr acc) (JStr x) = map JStr acc"
        by (simp add: set_add_JStr)
      with True Cons "1.IH" [rule_format, of xs' acc] show ?thesis by simp
    next
      case False
      then have "set_add (map JStr acc) (JStr x) = map JStr (acc @ [x])"
        by (auto simp add: set_add_JStr)
      moreover have "filter (\<lambda>y. y \<notin> set (acc @ [x])) xs' =
                     removeAll x (filter (\<lambda>y. y \<notin> set acc) xs')"
        by (induction xs') auto
      ultimately show ?thesis
        using False Cons "1.IH" [rule_format, of xs' "acc @ [x]"] by simp
    qed
  qed
qed

lemma array_from_set_strings: "array_from_set (map JStr xs) = map JStr (first_occurrences xs)"
  using foldl_set_add_strings [of "[]" xs] by (simp add: array_from_set_def)

lemma set_first_occurrences: "set (first_occurrences xs) = set xs"
  by (induction xs rule: first_occurrences.induct) auto

lemma distinct_first_occurrences: "distinct (first_occurrences xs)"
  by (induction xs rule: first_occurrences.induct) (auto simp: set_first_occurrences)

subsection \<open>The most recent records\<close>

lemma length_most_recent: "length (most_recent n rows) \<le> n"
  by (simp add: most_recent_def)

lemma set_most_recent: "set (most_recent n rows) \<subseteq> set rows"
  by (auto simp: most_recent_def dest: in_set_takeD)

text \<open>No record that is left out is more recent than one that is taken.\<close>

lemma most_recent_newest:
  assumes "r \<in> set (most_recent n rows)"
    and "r' \<in> set (drop n (rev (sort_key row_created_at rows)))"
  shows "row_created_at r' \<le> row_created_at r"
proof -
  let ?xs = "rev (sort_key row_created_at rows)"
  have "sorted (map row_created_at (sort_key row_created_at rows))"
    by (rule sorted_sort_key)
  then have "sorted_wrt (\<lambda>a b. row_created_at b \<le> row_created_at a) ?xs"
    by (simp add: sorted_map sorted_wrt_rev)
  then have "sorted_wrt (\<lambda>a b. row_created_at b \<le> row_created_at a)
               (take n ?xs @ drop n ?xs)"
    by simp
  then have "\<forall>a \<in> set (take n ?xs). \<forall>b \<in> set (drop n ?xs).
               row_created_at b \<le> row_created_at a"
    unfolding sorted_wrt_append by blast
  with assms show ?thesis by (simp add: most_recent_def)
qed

subsection \<open>The two queries on a table\<close>

lemma column_master_prompt: "column r ''master_prompt'' = JStr (row_master_prompt r)"
  by (simp add: column_def)

lemma column_feedback_tags:
  "column r ''feedback_tags'' =
     (case row_feedback_tags r of None \<Rightarrow> JNull | Some ts \<Rightarrow> JArr (map JStr ts))"
  by (simp add: column_def)

lemma positive_response:
  "table_response table (positive_query cat sty) =
     JObj [(''data'', JArr (map (\<lambda>r. JObj [(''master_prompt'', column r ''master_prompt'')])
                               (most_recent 3 (high_rated table cat sty)))),
           (''error'', JNull)]"
proof -
  have "filter (\<lambda>r. column r ''category'' = JStr cat \<and> column r ''style'' = JStr sty \<and>
                     column r ''rating'' = JNum 5) table = high_rated table cat sty"
    unfolding high_rated_def
    by (rule filter_cong) (auto simp: column_def split: option.splits)
  then show ?thesis
    by (simp add: table_response_def positive_query_def is_column_def run_select_def
        most_recent_def)
qed

lemma negative_response:
  "table_response table (negative_query cat) =
     JObj [(''data'', JArr (map (\<lambda>r. JObj [(''feedback_tags'', column r ''feedback_tags'')])
                               (take 10 (low_rated_tagged table cat)))),
           (''error'', JNull)]"
proof -
  have "filter (\<lambda>r. column r ''category'' = JStr cat \<and>
                     (case column r ''rating'' of JNum m \<Rightarrow> m < 3 | _ \<Rightarrow> False) \<and>
                     column r ''feedback_tags'' \<noteq> JNull) table = low_rated_tagged table cat"
    unfolding low_rated_tagged_def
    by (rule filter_cong) (auto simp: column_def split: option.splits)
  then show ?thesis
    by (simp add: table_response_def negative_query_def is_column_def run_select_def)
qed

subsection \<open>The context built from the answers\<close>

lemma joined_prompts_strings:
  "joined_prompts (JArr (map (\<lambda>p. JObj [(''master_prompt'', JStr p)]) prompts)) =
     Inr (join ''\<newline>--- EXAMPLE ---\<newline>'' prompts)"
proof -
  have "sequence (map (\<lambda>p. get_prop p ''master_prompt'')
          (map (\<lambda>p. JObj [(''master_prompt'', JStr p)]) prompts)) = Inr (map JStr prompts)"
    by (induction prompts) (simp_all add: get_prop_def)
  then show ?thesis
    by (simp add: joined_prompts_def array_join_strings)
qed

lemma flat_tags_strings:
  "flat_tags (JArr (map (\<lambda>ts. JObj [(''feedback_tags'', JArr (map JStr ts))]) tagsets)) =
     Inr (map JStr (concat tagsets))"
proof -
  have "sequence (map (\<lambda>n. get_prop n ''feedback_tags'')
          (map (\<lambda>ts. JObj [(''feedback_tags'', JArr (map JStr ts))]) tagsets)) =
        Inr (map (\<lambda>ts. JArr (map JStr ts)) tagsets)"
    by (induction tagsets) (simp_all add: get_prop_def)
  moreover have "concat (map (\<lambda>v. if truthy v then (case v of JArr ts \<Rightarrow> ts | _ \<Rightarrow> [v]) else [])
                   (map (\<lambda>ts. JArr (map JStr ts)) tagsets)) = map JStr (concat tagsets)"
    by (induction tagsets) simp_all
  ultimately show ?thesis
    by (simp add: flat_tags_def)
qed

text \<open>
  The code alone: when the client answers the first query with records holding the
  prompts and the second with records holding the tag sets, the context is the join of
  the prompts, and the join of the first five distinct tags.
\<close>

lemma learning_try_answers:
  assumes "client (positive_query cat sty) =
             Inr (JObj [(''data'', JArr (map (\<lambda>p. JObj [(''master_prompt'', JStr p)]) prompts)),
                        (''error'', JNull)])"
    and "client (negative_query cat) =
             Inr (JObj [(''data'', JArr (map (\<lambda>ts. JObj [(''feedback_tags'', JArr (map JStr ts))])
                                           tagsets)),
                        (''error'', JNull)])"
  shows "learning_try client cat sty =
           Inr \<lparr>examples = join ''\<newline>--- EXAMPLE ---\<newline>'' prompts,
                constraints = join '', '' (take 5 (first_occurrences (concat tagsets)))\<rparr>"
  using assms
  by (simp add: learning_try_def get_prop_def joined_prompts_strings flat_tags_strings
      array_from_set_strings take_map array_join_strings)

subsection \<open>The context on a table\<close>

text \<open>The answers of the table service are of this form.\<close>

lemma positive_rows:
  "map (\<lambda>r. JObj [(''master_prompt'', column r ''master_prompt'')]) rows =
   map (\<lambda>p. JObj [(''master_prompt'', JStr p)]) (map row_master_prompt rows)"
  by (simp add: column_master_prompt)

lemma negative_rows:
  assumes "\<forall>r \<in> set rows. row_feedback_tags r \<noteq> None"
  shows "map (\<lambda>r. JObj [(''feedback_tags'', column r ''feedback_tags'')]) rows =
         map (\<lambda>ts. JObj [(''feedback_tags'', JArr (map JStr ts))]) (map tags_of rows)"
  using assms by (auto simp add: column_feedback_tags tags_of_def)

lemma low_rated_tagged_has_tags:
  "r \<in> set (take n (low_rated_tagged table cat)) \<Longrightarrow> row_feedback_tags r \<noteq> None"
  by (auto simp add: low_rated_tagged_def dest: in_set_takeD)

text \<open>On a table the \<^verbatim>\<open>try\<close> block does not throw, and this is its result.\<close>

lemma learning_try_table:
  "learning_try (table_client table) cat sty =
     Inr \<lparr>examples = join ''\<newline>--- EXAMPLE ---\<newline>''
                       (map row_master_prompt (most_recent 3 (high_rated table cat sty))),
          constraints = join '', ''
                       (take 5 (first_occurrences
                          (concat (map tags_of (take 10 (low_rated_tagged table cat))))))\<rparr>"
proof (rule learning_try_answers)
  show "table_client table (positive_query cat sty) =
          Inr (JObj [(''data'', JArr (map (\<lambda>p. JObj [(''master_prompt'', JStr p)])
                        (map row_master_prompt (most_recent 3 (high_rated table cat sty))))),
                     (''error'', JNull)])"
    by (simp only: table_client_def positive_response positive_rows)
  have "\<forall>r \<in> set (take 10 (low_rated_tagged table cat)). row_feedback_tags r \<noteq> None"
    using low_rated_tagged_has_tags by blast
  then show "table_client table (negative_query cat) =
          Inr (JObj [(''data'', JArr (map (\<lambda>ts. JObj [(''feedback_tags'', JArr (map JStr ts))])
                        (map tags_of (take 10 (low_rated_tagged table cat))))),
                     (''error'', JNull)])"
    by (simp only: table_client_def negative_response negative_rows)
qed

text \<open>
  Claim C7. Over a persisted relation, \<^verbatim>\<open>getLearningContext\<close> returns as examples the
  instruction texts of the (at most) 3 most recent records whose category and style
  match and whose rating is exactly 5, joined by the separator line; and as constraints
  the first 5 distinct values, joined by a comma, of the flattened feedback tags of (at
  most) 10 records of the category, of any style, whose rating is below 3 and whose tag
  set is not null.
\<close>

theorem getLearningContext_on_table:
  "getLearningContext (table_client table) cat sty =
     Inr \<lparr>examples = join ''\<newline>--- EXAMPLE ---\<newline>''
                       (map row_master_prompt (most_recent 3 (high_rated table cat sty))),
          constraints = join '', ''
                       (take 5 (first_occurrences
                          (concat (map tags_of (take 10 (low_rated_tagged table cat))))))\<rparr>"
proof -
  let ?ctx = "\<lparr>examples = join ''\<newline>--- EXAMPLE ---\<newline>''
                       (map row_master_prompt (most_recent 3 (high_rated table cat sty))),
               constraints = join '', ''
                       (take 5 (first_occurrences
                          (concat (map tags_of (take 10 (low_rated_tagged table cat))))))\<rparr>"
  have "learning_try (table_client table) cat sty = Inr ?ctx"
    by (rule learning_try_table)
  then show ?thesis
    by (simp add: getLearningContext_def)
qed

theorem getLearningContext_on_table_witness:
  "getLearningContext (table_client sample_table) ''stage'' ''luxury'' =
     Inr \<lparr>examples = ''P6\<newline>--- EXAMPLE ---\<newline>P5\<newline>--- EXAMPLE ---\<newline>P2'',
          constraints = ''dark, blurry, flat''\<rparr>"
  using getLearningContext_on_table [of sample_table "''stage''" "''luxury''"]
  by (simp add: sample_table_def high_rated_def most_recent_def low_rated_tagged_def
      tags_of_def)

text \<open>
  Claim C8. \<^verbatim>\<open>getLearningContext\<close> never throws: whatever the client does, a context
  is returned; when one of the two queries throws, it is the empty context; when no
  high-rated record matches, the examples are the empty string; when no low-rated tagged
  record matches, the constraints are the empty string.
\<close>

theorem getLearningContext_never_throws:
  "(\<exists>ctx. getLearningContext client cat sty = Inr ctx) \<and>
   (client (positive_query cat sty) = Inl x \<or> client (negative_query cat) = Inl x \<longrightarrow>
      getLearningContext client cat sty = Inr \<lparr>examples = [], constraints = []\<rparr>) \<and>
   (high_rated table cat sty = [] \<longrightarrow>
      (\<exists>ctx. getLearningContext (table_client table) cat sty = Inr ctx \<and> examples ctx = [])) \<and>
   (low_rated_tagged table cat = [] \<longrightarrow>
      (\<exists>ctx. getLearningContext (table_client table) cat sty = Inr ctx \<and> constraints ctx = []))"
proof (intro conjI impI)
  show "\<exists>ctx. getLearningContext client cat sty = Inr ctx"
    by (cases "learning_try client cat sty") (simp_all add: getLearningContext_def)
next
  assume "client (positive_query cat sty) = Inl x \<or> client (negative_query cat) = Inl x"
  then have "\<exists>y. learning_try client cat sty = Inl y"
    by (auto simp add: learning_try_def split: sum.splits)
  then show "getLearningContext client cat sty = Inr \<lparr>examples = [], constraints = []\<rparr>"
    by (auto simp add: getLearningContext_def)
next
  assume "high_rated table cat sty = []"
  then show "\<exists>ctx. getLearningContext (table_client table) cat sty = Inr ctx \<and> examples ctx = []"
    by (simp add: getLearningContext_def learning_try_table most_recent_def)
next
  assume "low_rated_tagged table cat = []"
  then show "\<exists>ctx. getLearningContext (table_client table) cat sty = Inr ctx \<and> constraints ctx = []"
    by (simp add: getLearningContext_def learning_try_table)
qed

theorem getLearningContext_never_throws_witness:
  "getLearningContext throwing_client ''stage'' ''luxury'' =
     Inr \<lparr>examples = [], constraints = []\<rparr>
   \<and> (\<exists>ctx. getLearningContext (table_client sample_table) ''garden'' ''luxury'' = Inr ctx \<and>
        examples ctx = [])
   \<and> (\<exists>ctx. getLearningContext (table_client sample_table) ''garden'' ''luxury'' = Inr ctx \<and>
        constraints ctx = [])"
  using getLearningContext_never_throws
    [of throwing_client "''stage''" "''luxury''" "Thrown (JObj [(''message'', JStr ''Failed to fetch'')])"
        sample_table]
    getLearningContext_never_throws
    [of "table_client sample_table" "''garden''" "''luxury''" TypeError sample_table]
  by (simp add: throwing_client_def sample_table_def high_rated_def low_rated_tagged_def)


section \<open>Properties of the feedback update\<close>

text \<open>
  Claim C9. When the update collaborator reports an error (the \<^verbatim>\<open>error\<close> of its answer
  is truthy, as every error object is), \<^verbatim>\<open>submitFeedback\<close> throws that error; when it
  reports none, \<^verbatim>\<open>submitFeedback\<close> completes; and a rejection of the call itself is
  passed on as well.
\<close>

theorem submitFeedback_propagates_error:
  "(client (update_query recordId rating tags) = Inr r \<and> get_prop r ''error'' = Inr err \<and>
      truthy err \<longrightarrow>
      submitFeedback client recordId rating tags = Inl (Thrown err)) \<and>
   (client (update_query recordId rating tags) = Inr r \<and> get_prop r ''error'' = Inr err \<and>
      \<not> truthy err \<longrightarrow>
      submitFeedback client recordId rating tags = Inr ()) \<and>
   (client (update_query recordId rating tags) = Inl x \<longrightarrow>
      submitFeedback client recordId rating tags = Inl x)"
proof (intro conjI impI)
  assume "client (update_query recordId rating tags) = Inr r \<and>
          get_prop r ''error'' = Inr err \<and> truthy err"
  then show "submitFeedback client recordId rating tags = Inl (Thrown err)"
    by (simp add: submitFeedback_def)
next
  assume "client (update_query recordId rating tags) = Inr r \<and>
          get_prop r ''error'' = Inr err \<and> \<not> truthy err"
  then show "submitFeedback client recordId rating tags = Inr ()"
    by (simp add: submitFeedback_def)
next
  assume "client (update_query recordId rating tags) = Inl x"
  then show "submitFeedback client recordId rating tags = Inl x"
    by (simp add: submitFeedback_def)
qed

theorem submitFeedback_propagates_error_witness:
  "submitFeedback failing_update_client ''no-such-record'' 4 [''blurry''] =
     Inl (Thrown unknown_id_error)
   \<and> submitFeedback accepting_update_client ''7'' 4 [''blurry''] = Inr ()"
  using submitFeedback_propagates_error
    [of failing_update_client "''no-such-record''" 4 "[''blurry'']"
        "JObj [(''data'', JNull), (''error'', unknown_id_error)]" unknown_id_error TypeError]
    submitFeedback_propagates_error
    [of accepting_update_client "''7''" 4 "[''blurry'']"
        "JObj [(''data'', JNull), (''error'', JNull)]" JNull TypeError]
  by (simp add: failing_update_client_def accepting_update_client_def get_prop_def
      unknown_id_error_def)

text \<open>What awaiting a chain on the offline mock gives.\<close>

lemma createMockChain_update: "createMockChain (update_query recordId rating tags) = Inr offline_then"
  by (simp add: createMockChain_def update_query_def)

lemma createMockChain_select:
  "createMockChain (positive_query cat sty) = Inr offline_then"
  "createMockChain (negative_query cat) = Inr offline_then"
  by (simp_all add: createMockChain_def positive_query_def negative_query_def)

lemma createMockChain_insert:
  "createMockChain (insert_query options masterPrompt) = Inr offline_single"
  by (simp add: createMockChain_def insert_query_def)

lemma supabase_unconfigured:
  "\<not> (env_set supabaseUrl \<and> env_set supabaseAnonKey) \<Longrightarrow>
     supabase createClient supabaseUrl supabaseAnonKey = createMockChain"
  by (auto simp add: supabase_def)

text \<open>
  Claim C10. Without credentials the client is the mock, whose update chain resolves
  with a \<^verbatim>\<open>null\<close> error: \<^verbatim>\<open>submitFeedback\<close> completes for every record identifier,
  rating and tag list, whether or not such a record exists.
\<close>

theorem submitFeedback_offline_succeeds:
  assumes "\<not> (env_set supabaseUrl \<and> env_set supabaseAnonKey)"
  shows "submitFeedback (supabase createClient supabaseUrl supabaseAnonKey)
           recordId rating tags = Inr ()"
  using assms
  by (simp add: supabase_unconfigured submitFeedback_def createMockChain_update
      offline_then_def get_prop_def)

theorem submitFeedback_offline_succeeds_witness:
  "submitFeedback offline_supabase ''no-such-record'' 1 [''blurry''] = Inr ()"
  using submitFeedback_offline_succeeds
    [of None None no_createClient "''no-such-record''" 1 "[''blurry'']"]
  by (simp add: offline_supabase_def env_set_def)


section \<open>Properties of the empowerment block\<close>

lemma empowerment_header_nonempty: "empowerment_header \<noteq> []"
  by (simp add: empowerment_header_def)

text \<open>
  The two directives on the textile colours need a concrete textile material, the
  directive on the textile material needs the sentinel: never more than six at once.
\<close>

lemma autoInstructions_at_most_six: "length (autoInstructions selections) \<le> 6"
  by (simp add: autoInstructions_def)

text \<open>
  Claim C1, as stated, fails: with every field \<^verbatim>\<open>none\<close> the block holds 5 directives,
  not 7.
\<close>

theorem getEmpowermentPrompt_all_none_counterexample:
  "length (autoInstructions all_none_options) = 5 \<and>
   length (autoInstructions all_none_options) \<noteq> 7"
  by (simp add: autoInstructions_def all_none_options_def)

text \<open>
  Claim C1, amended. If every option field is \<^verbatim>\<open>none\<close>, the block is not empty and
  holds exactly 5 directives, those for category, style, colour palette, surface material
  and textile material (the two directives on the textile colours are given only with a
  concrete textile material). If every field holds a concrete value, the block is the
  empty string.
\<close>

theorem getEmpowermentPrompt_all_or_nothing:
  "(category s = ''none'' \<and> style s = ''none'' \<and> colorPalette s = ''none'' \<and>
    surfaceMaterial s = ''none'' \<and> textileMaterial s = ''none'' \<and>
    textileColor1 s = ''none'' \<and> textileColor2 s = ''none'' \<longrightarrow>
      autoInstructions s =
        [directive_category, directive_style, directive_colorPalette,
         directive_surfaceMaterial, directive_textileMaterial] \<and>
      getEmpowermentPrompt s =
        empowerment_header @ join ''\<newline>'' (autoInstructions s) @ empowerment_footer \<and>
      getEmpowermentPrompt s \<noteq> []) \<and>
   (category s \<noteq> ''none'' \<and> style s \<noteq> ''none'' \<and> colorPalette s \<noteq> ''none'' \<and>
    surfaceMaterial s \<noteq> ''none'' \<and> textileMaterial s \<noteq> ''none'' \<and>
    textileColor1 s \<noteq> ''none'' \<and> textileColor2 s \<noteq> ''none'' \<longrightarrow>
      getEmpowermentPrompt s = [])"
  using empowerment_header_nonempty
  by (simp add: getEmpowermentPrompt_def autoInstructions_def)

theorem getEmpowermentPrompt_all_or_nothing_witness:
  "length (autoInstructions all_none_options) = 5 \<and>
   getEmpowermentPrompt all_none_options \<noteq> [] \<and>
   getEmpowermentPrompt concrete_options = []"
  using getEmpowermentPrompt_all_or_nothing [of all_none_options]
    getEmpowermentPrompt_all_or_nothing [of concrete_options]
  by (simp add: all_none_options_def concrete_options_def)


section \<open>Offline mode\<close>

lemma callWithRetry_first_success:
  assumes "fn 0 = Inr v" and "1 \<le> retries"
  shows "callWithRetry fn retries delay = (Inr v, \<lparr>calls = 1, sleeps = []\<rparr>)"
  using assms by (simp add: callWithRetry_def retry_loop.simps [of fn retries 0])

lemma saveRenderHistory_mock:
  "saveRenderHistory createMockChain options masterPrompt = Inr (JStr ''offline-mode-id'')"
  by (simp add: saveRenderHistory_def save_try_def createMockChain_insert offline_single_def
      get_prop_def)

lemma getLearningContext_mock:
  "getLearningContext createMockChain cat sty = Inr \<lparr>examples = [], constraints = []\<rparr>"
  by (simp add: getLearningContext_def learning_try_def createMockChain_select
      offline_then_def get_prop_def flat_tags_def joined_prompts_def array_join_def
      array_from_set_def)

text \<open>
  Claim C2, as stated, fails: offline, \<^verbatim>\<open>saveRenderHistory\<close> does not return \<^verbatim>\<open>null\<close>
  but the placeholder identifier that the mock's \<^verbatim>\<open>single()\<close> resolves with.
\<close>

theorem saveRenderHistory_offline_counterexample:
  "saveRenderHistory offline_supabase all_none_options ''master prompt'' =
     Inr (JStr ''offline-mode-id'')
   \<and> saveRenderHistory offline_supabase all_none_options ''master prompt'' \<noteq> Inr JNull"
  by (simp add: offline_supabase_def supabase_def env_set_def saveRenderHistory_mock)

text \<open>
  Claim C2, amended. Without credentials (offline mode), for every options and master
  prompt, \<^verbatim>\<open>saveRenderHistory\<close> returns the placeholder identifier
  \<^verbatim>\<open>'offline-mode-id'\<close>, \<^verbatim>\<open>getLearningContext\<close> returns empty examples and empty
  constraints, and a generation call whose render request yields an image completes and
  returns that image, with the placeholder as its render identifier.
\<close>

theorem offline_mode_degrades_gracefully:
  assumes "\<not> (env_set supabaseUrl \<and> env_set supabaseAnonKey)"
  shows "saveRenderHistory (supabase createClient supabaseUrl supabaseAnonKey)
           options masterPrompt = Inr (JStr ''offline-mode-id'')
       \<and> getLearningContext (supabase createClient supabaseUrl supabaseAnonKey) cat sty =
           Inr \<lparr>examples = [], constraints = []\<rparr>
       \<and> (env_set API_KEY \<and>
          fst (callWithRetry_defaults
                 (ai (render_request
                        (buildMasterPrompt constants ai sourceImage options
                           \<lparr>examples = [], constraints = []\<rparr>)
                        sourceImage))) = Inr renderResponse \<and>
          first_image renderResponse = Some url \<longrightarrow>
          generateWeddingRender constants API_KEY
            (supabase createClient supabaseUrl supabaseAnonKey) ai sourceImage options =
            Inr \<lparr>imageUrl = url, renderId = JStr ''offline-mode-id''\<rparr>)"
  using assms
  by (simp add: supabase_unconfigured saveRenderHistory_mock getLearningContext_mock
      generateWeddingRender_def)

theorem offline_mode_degrades_gracefully_witness:
  "saveRenderHistory offline_supabase concrete_options ''master prompt'' =
     Inr (JStr ''offline-mode-id'')
   \<and> getLearningContext offline_supabase ''stage'' ''luxury'' =
     Inr \<lparr>examples = [], constraints = []\<rparr>
   \<and> generateWeddingRender sample_constants (Some ''key'') offline_supabase png_model
       sample_image concrete_options =
     Inr \<lparr>imageUrl = ''data:image/png;base64,iVBORw0KGgo='',
          renderId = JStr ''offline-mode-id''\<rparr>"
proof -
  have img: "first_image png_response = Some ''data:image/png;base64,iVBORw0KGgo=''"
    by (simp add: first_image_def png_response_def env_set_def)
  have call: "fst (callWithRetry_defaults (png_model req)) = Inr png_response" for req
    by (simp add: callWithRetry_defaults_def callWithRetry_first_success png_model_def)
  show ?thesis
    using offline_mode_degrades_gracefully
      [where supabaseUrl = None and supabaseAnonKey = None and API_KEY = "Some ''key''"
         and ai = png_model and constants = sample_constants and sourceImage = sample_image
         and options = concrete_options and renderResponse = png_response
         and url = "''data:image/png;base64,iVBORw0KGgo=''"
         and createClient = no_createClient and masterPrompt = "''master prompt''"
         and cat = "''stage''" and sty = "''luxury''"]
    by (simp add: offline_supabase_def env_set_def img call)
qed

end
